theory Spec2Isabelle
  imports Complex_Main
begin

section \<open>JavaScript values\<close>

text \<open>
  The finance engine keeps its dataset in a field of type \<open>any\<close> and inspects it with
  \<open>typeof\<close>, \<open>Array.isArray\<close> and truthiness tests, so the dataset is modelled as an
  untyped JSON-like value.  Numbers are mathematical reals: rounding of IEEE doubles, NaN and
  the infinities are outside the model.  An object is an association list in key order.
\<close>

datatype jsval =
    JUndefined
  | JNull
  | JBool bool
  | JNum real
  | JStr string
  | JArr "jsval list"
  | JObj "(string \<times> jsval) list"

datatype js_error = TypeError | SyntaxError | StorageError | Error string

text \<open>\<open>truthy v\<close> is the outcome of \<open>!!v\<close>.\<close>

fun truthy :: "jsval \<Rightarrow> bool" where
  "truthy JUndefined = False"
| "truthy JNull = False"
| "truthy (JBool b) = b"
| "truthy (JNum r) = (r \<noteq> 0)"
| "truthy (JStr s) = (s \<noteq> [])"
| "truthy (JArr xs) = True"
| "truthy (JObj kvs) = True"

fun isArray :: "jsval \<Rightarrow> bool" where
  "isArray (JArr xs) = True"
| "isArray v = False"

fun isNumber :: "jsval \<Rightarrow> bool" where
  "isNumber (JNum r) = True"
| "isNumber v = False"

fun isString :: "jsval \<Rightarrow> bool" where
  "isString (JStr s) = True"
| "isString v = False"

fun elems :: "jsval \<Rightarrow> jsval list" where
  "elems (JArr xs) = xs"
| "elems v = []"

text \<open>
  \<open>propOf k v\<close> is the property read \<open>v.k\<close> on a value that is neither \<open>null\<close> nor
  \<open>undefined\<close>: an object answers with the stored value, anything else (for the property
  names this program reads) with \<open>undefined\<close>.  \<open>get k v\<close> is the same read where the
  program does not guard it: on \<open>null\<close> and \<open>undefined\<close> it throws a TypeError.
\<close>

fun propOf :: "string \<Rightarrow> jsval \<Rightarrow> jsval" where
  "propOf k (JObj kvs) = (case map_of kvs k of Some v \<Rightarrow> v | None \<Rightarrow> JUndefined)"
| "propOf k v = JUndefined"

fun get :: "string \<Rightarrow> jsval \<Rightarrow> js_error + jsval" where
  "get k JUndefined = Inl TypeError"
| "get k JNull = Inl TypeError"
| "get k v = Inr (propOf k v)"

section \<open>The typed view of a menu\<close>

text \<open>
  The interfaces \<open>BOMItem\<close> and \<open>MenuItem\<close> of the engine, and the objects that carry
  them at run time.
\<close>

record Packaging =
  qtyUnit :: real
  unitCost :: real

record BOMItem =
  item :: string
  qtyG :: real
  unitCostPerKg :: real
  yieldPercent :: real
  wastePercent :: real
  packaging :: "Packaging option"

record ChannelMix =
  dineIn :: real
  takeaway :: real
  delivery :: real

record MenuItem =
  menuId :: string
  menuName :: string
  price :: real
  channelMix :: ChannelMix
  bom :: "BOMItem list"

definition js_of_Packaging :: "Packaging \<Rightarrow> jsval" where
  "js_of_Packaging p = JObj [(''qtyUnit'', JNum (qtyUnit p)), (''unitCost'', JNum (unitCost p))]"

definition js_of_BOMItem :: "BOMItem \<Rightarrow> jsval" where
  "js_of_BOMItem b = JObj
     ([(''item'', JStr (item b)), (''qtyG'', JNum (qtyG b)),
       (''unitCostPerKg'', JNum (unitCostPerKg b)),
       (''yieldPercent'', JNum (yieldPercent b)),
       (''wastePercent'', JNum (wastePercent b))]
      @ (case packaging b of None \<Rightarrow> [] | Some p \<Rightarrow> [(''packaging'', js_of_Packaging p)]))"

definition js_of_ChannelMix :: "ChannelMix \<Rightarrow> jsval" where
  "js_of_ChannelMix c = JObj
     [(''dineIn'', JNum (dineIn c)), (''takeaway'', JNum (takeaway c)),
      (''delivery'', JNum (delivery c))]"

definition js_of_MenuItem :: "MenuItem \<Rightarrow> jsval" where
  "js_of_MenuItem m = JObj
     [(''id'', JStr (menuId m)), (''name'', JStr (menuName m)), (''price'', JNum (price m)),
      (''channelMix'', js_of_ChannelMix (channelMix m)),
      (''bom'', JArr (map js_of_BOMItem (bom m)))]"

section \<open>FinanceEngine: unit cost and revenue\<close>

text \<open>The callback of the \<open>reduce\<close> in \<open>calculateVariableCostPerUnit\<close>.\<close>

definition bomItemCost :: "real \<Rightarrow> jsval \<Rightarrow> real" where
  "bomItemCost tot bomItem =
     (if \<not> truthy bomItem then tot
      else if truthy (propOf ''packaging'' bomItem) then
        (case (propOf ''qtyUnit'' (propOf ''packaging'' bomItem),
               propOf ''unitCost'' (propOf ''packaging'' bomItem)) of
           (JNum q, JNum c) \<Rightarrow> tot + q * c
         | _ \<Rightarrow> tot)
      else
        (case (propOf ''qtyG'' bomItem, propOf ''unitCostPerKg'' bomItem,
               propOf ''yieldPercent'' bomItem, propOf ''wastePercent'' bomItem) of
           (JNum g, JNum c, JNum y, JNum w) \<Rightarrow>
             if y \<le> 0 then tot
             else
               let wastePercent = max 0 w;
                   effectiveYield = y / 100;
                   wasteMultiplier = 1 + wastePercent / 100;
                   qtyInKg = g / 1000;
                   actualQtyNeeded = qtyInKg * wasteMultiplier / effectiveYield
               in tot + actualQtyNeeded * c
         | _ \<Rightarrow> tot))"

definition calculateVariableCostPerUnit :: "jsval \<Rightarrow> real" where
  "calculateVariableCostPerUnit menu =
     (if \<not> truthy menu \<or> \<not> truthy (propOf ''bom'' menu) \<or> \<not> isArray (propOf ''bom'' menu) then 0
      else foldl bomItemCost 0 (elems (propOf ''bom'' menu)))"

text \<open>The callback of the \<open>reduce\<close> in \<open>calculateDailyRevenue\<close>; \<open>units\<close> is
  \<open>this.data.salesModel.forecastDailyUnits\<close>.\<close>

definition menuRevenue :: "real \<Rightarrow> real \<Rightarrow> jsval \<Rightarrow> real" where
  "menuRevenue units tot menu =
     (if \<not> truthy menu \<or> \<not> isNumber (propOf ''price'' menu) \<or> \<not> truthy (propOf ''channelMix'' menu)
      then tot
      else
        (case (propOf ''price'' menu,
               propOf ''dineIn'' (propOf ''channelMix'' menu),
               propOf ''takeaway'' (propOf ''channelMix'' menu),
               propOf ''delivery'' (propOf ''channelMix'' menu)) of
           (JNum p, JNum d, JNum t, JNum v) \<Rightarrow>
             let validDineIn = max 0 d;
                 validTakeaway = max 0 t;
                 validDelivery = max 0 v;
                 menuUnits = units * (validDineIn + validTakeaway + validDelivery)
             in tot + p * menuUnits
         | _ \<Rightarrow> tot))"

text \<open>\<open>calculateDailyRevenue\<close> reads \<open>this.data\<close>; in every caller \<open>this.data\<close> has
  passed \<open>validateData\<close>, and the read of a property of a nullish \<open>data\<close> throws.\<close>

definition calculateDailyRevenue :: "jsval \<Rightarrow> js_error + real" where
  "calculateDailyRevenue data =
     (case get ''salesModel'' data of
        Inl e \<Rightarrow> Inl e
      | Inr sm \<Rightarrow>
          if \<not> truthy sm then Inr 0
          else (case propOf ''forecastDailyUnits'' sm of
                  JNum units \<Rightarrow>
                    if \<not> truthy (propOf ''menus'' data) \<or> \<not> isArray (propOf ''menus'' data)
                    then Inr 0
                    else Inr (foldl (menuRevenue units) 0 (elems (propOf ''menus'' data)))
                | _ \<Rightarrow> Inr 0))"

section \<open>FinanceEngine: the report\<close>

text \<open>
  Where the engine does arithmetic on values it has not tested with \<open>typeof\<close>, an operand
  that is not a number makes the JavaScript result a NaN or a string.  Such a result is
  \<open>None\<close> here: the model says nothing about it.  A division by zero is \<open>None\<close> too.
\<close>

type_synonym num = "real option"

fun numOf :: "jsval \<Rightarrow> num" where
  "numOf (JNum r) = Some r"
| "numOf v = None"

fun addN :: "num \<Rightarrow> num \<Rightarrow> num" where
  "addN (Some a) (Some b) = Some (a + b)"
| "addN a b = None"

fun subN :: "num \<Rightarrow> num \<Rightarrow> num" where
  "subN (Some a) (Some b) = Some (a - b)"
| "subN a b = None"

fun mulN :: "num \<Rightarrow> num \<Rightarrow> num" where
  "mulN (Some a) (Some b) = Some (a * b)"
| "mulN a b = None"

fun divN :: "num \<Rightarrow> num \<Rightarrow> num" where
  "divN (Some a) (Some b) = (if b = 0 then None else Some (a / b))"
| "divN a b = None"

text \<open>\<open>bindE\<close> sequences two steps of which the first may throw.\<close>

fun bindE :: "'e + 'a \<Rightarrow> ('a \<Rightarrow> 'e + 'b) \<Rightarrow> 'e + 'b" where
  "bindE (Inl e) f = Inl e"
| "bindE (Inr a) f = f a"

text \<open>A \<open>reduce\<close> whose callback may throw.\<close>

fun reduceE :: "('b \<Rightarrow> 'a \<Rightarrow> 'e + 'b) \<Rightarrow> 'b \<Rightarrow> 'a list \<Rightarrow> 'e + 'b" where
  "reduceE f acc [] = Inr acc"
| "reduceE f acc (x # xs) = bindE (f acc x) (\<lambda>acc'. reduceE f acc' xs)"

text \<open>A \<open>map\<close> whose callback may throw.\<close>

fun mapE :: "('a \<Rightarrow> 'e + 'b) \<Rightarrow> 'a list \<Rightarrow> 'e + 'b list" where
  "mapE f [] = Inr []"
| "mapE f (x # xs) = bindE (f x) (\<lambda>y. bindE (mapE f xs) (\<lambda>ys. Inr (y # ys)))"

record PnLPeriod =
  revenue :: num
  cogs :: num
  grossProfit :: num
  operatingExpenses :: num
  operatingProfit :: num

record PnL =
  daily :: PnLPeriod
  monthly :: PnLPeriod

record FinancialMetrics =
  kpiRevenue :: num
  kpiGrossProfit :: num
  kpiOperatingProfit :: num
  netProfit :: num
  primeCostPct :: num
  foodCostPct :: num
  laborPct :: num
  cmPct :: num
  bepUnits :: num
  bepPerDay :: num
  safetyMargin :: num
  avgTicket :: num

record MenuMetrics =
  mmId :: jsval
  mmName :: jsval
  mmPrice :: jsval
  vc :: num
  cm :: num
  mmCmPct :: num

text \<open>
  The result of \<open>compute\<close>.  Its \<open>computedAt\<close> (a clock reading) and \<open>dataVersion\<close> (a
  prefix of the base-64 text of the serialised data, or \<open>'unknown'\<close>; computed under its own
  \<open>try\<close>) are not modelled.  \<open>sensitivity\<close> is the series of (change, impact) pairs.
\<close>

record Report =
  pnl :: PnL
  kpis :: FinancialMetrics
  menus :: "MenuMetrics list"
  sensitivity :: "(real \<times> real) list"
  reportError :: "string option"

definition zeroPeriod :: PnLPeriod where
  "zeroPeriod = \<lparr>revenue = Some 0, cogs = Some 0, grossProfit = Some 0,
                 operatingExpenses = Some 0, operatingProfit = Some 0\<rparr>"

definition getDefaultFinancialMetrics :: FinancialMetrics where
  "getDefaultFinancialMetrics =
     \<lparr>kpiRevenue = Some 0, kpiGrossProfit = Some 0, kpiOperatingProfit = Some 0,
      netProfit = Some 0, primeCostPct = Some 0, foodCostPct = Some 0, laborPct = Some 0,
      cmPct = Some 0, bepUnits = Some 0, bepPerDay = Some 0, safetyMargin = Some 0,
      avgTicket = Some 0\<rparr>"

definition getDefaultComputationResult :: Report where
  "getDefaultComputationResult =
     \<lparr>pnl = \<lparr>daily = zeroPeriod, monthly = zeroPeriod\<rparr>,
      kpis = getDefaultFinancialMetrics,
      menus = [],
      sensitivity = [],
      reportError = Some ''Computation failed due to invalid data''\<rparr>"

text \<open>
  \<open>validateData\<close>.  After the test \<open>!this.data\<close> no read in its body can throw, so its own
  \<open>catch\<close> is never entered.
\<close>

definition validateData :: "jsval \<Rightarrow> bool" where
  "validateData d =
     (if \<not> truthy d then False
      else if \<not> truthy (propOf ''menus'' d) \<or> \<not> isArray (propOf ''menus'' d)
              \<or> length (elems (propOf ''menus'' d)) = 0 then False
      else if \<not> truthy (propOf ''salesModel'' d)
              \<or> \<not> isNumber (propOf ''forecastDailyUnits'' (propOf ''salesModel'' d)) then False
      else if \<not> isArray (propOf ''utilities'' d) \<or> \<not> isArray (propOf ''labor'' d)
              \<or> \<not> isArray (propOf ''fixedCosts'' d) then False
      else True)"

text \<open>\<open>arr.reduce\<close>, \<open>arr.map\<close> and \<open>arr.filter\<close> exist on arrays only.\<close>

fun asArray :: "jsval \<Rightarrow> js_error + jsval list" where
  "asArray (JArr xs) = Inr xs"
| "asArray v = Inl TypeError"

definition forecastDailyUnitsOf :: "jsval \<Rightarrow> js_error + num" where
  "forecastDailyUnitsOf d =
     bindE (get ''salesModel'' d) (\<lambda>sm. bindE (get ''forecastDailyUnits'' sm) (\<lambda>u. Inr (numOf u)))"

definition calculateDailyCOGS :: "jsval \<Rightarrow> js_error + num" where
  "calculateDailyCOGS d =
     bindE (get ''menus'' d) (\<lambda>ms. bindE (asArray ms) (\<lambda>xs.
       reduceE (\<lambda>tot menu.
           bindE (forecastDailyUnitsOf d) (\<lambda>menuUnits.
             Inr (addN tot (mulN (Some (calculateVariableCostPerUnit menu)) menuUnits))))
         (Some 0) xs))"

definition calculateMonthlyFixedCosts :: "jsval \<Rightarrow> js_error + num" where
  "calculateMonthlyFixedCosts d =
     bindE (get ''fixedCosts'' d) (\<lambda>fs. bindE (asArray fs) (\<lambda>xs.
       reduceE (\<lambda>tot cost.
           bindE (get ''amountPerMonth'' cost) (\<lambda>a. Inr (addN tot (numOf a))))
         (Some 0) xs))"

definition calculateMonthlyLaborCosts :: "jsval \<Rightarrow> js_error + num" where
  "calculateMonthlyLaborCosts d =
     bindE (get ''labor'' d) (\<lambda>ls. bindE (asArray ls) (\<lambda>xs.
       reduceE (\<lambda>tot labor.
           bindE (get ''hoursPerDay'' labor) (\<lambda>h.
           bindE (get ''daysPerWeek'' labor) (\<lambda>dw.
           bindE (get ''wagePerHour'' labor) (\<lambda>w.
             let monthlyHours = mulN (mulN (numOf h) (numOf dw)) (Some 4.33)
             in Inr (addN tot (mulN (numOf w) monthlyHours))))))
         (Some 0) xs))"

text \<open>The daily cost of one utility: the \<open>if\<close> cascade inside
  \<open>calculateMonthlyUtilityCosts\<close>.  Every read is of the same \<open>utility\<close>, so the first one
  throws on a nullish element.\<close>

definition dailyUtilityCost :: "jsval \<Rightarrow> js_error + num" where
  "dailyUtilityCost utility =
     bindE (get ''type'' utility) (\<lambda>ty.
       if ty = JStr ''electric'' \<and> truthy (propOf ''kw'' utility)
            \<and> truthy (propOf ''hoursPerDay'' utility) \<and> truthy (propOf ''ratePerKwh'' utility)
       then Inr (mulN (mulN (numOf (propOf ''kw'' utility)) (numOf (propOf ''hoursPerDay'' utility)))
                   (numOf (propOf ''ratePerKwh'' utility)))
       else if ty = JStr ''lpg'' \<and> truthy (propOf ''kgPerBatch'' utility)
            \<and> truthy (propOf ''batchesPerDay'' utility) \<and> truthy (propOf ''ratePerKg'' utility)
       then Inr (mulN (mulN (numOf (propOf ''kgPerBatch'' utility))
                         (numOf (propOf ''batchesPerDay'' utility)))
                   (numOf (propOf ''ratePerKg'' utility)))
       else if ty = JStr ''water'' \<and> truthy (propOf ''m3PerDay'' utility)
            \<and> truthy (propOf ''ratePerM3'' utility)
       then Inr (mulN (numOf (propOf ''m3PerDay'' utility)) (numOf (propOf ''ratePerM3'' utility)))
       else Inr (Some 0))"

definition calculateMonthlyUtilityCosts :: "jsval \<Rightarrow> js_error + num" where
  "calculateMonthlyUtilityCosts d =
     bindE (get ''utilities'' d) (\<lambda>us. bindE (asArray us) (\<lambda>xs.
       reduceE (\<lambda>tot utility.
           bindE (dailyUtilityCost utility) (\<lambda>dailyCost.
             Inr (addN tot (mulN dailyCost (Some 30)))))
         (Some 0) xs))"

definition calculatePnL :: "jsval \<Rightarrow> js_error + PnL" where
  "calculatePnL d =
     bindE (calculateDailyRevenue d) (\<lambda>rev.
     bindE (calculateDailyCOGS d) (\<lambda>dailyCOGS.
     bindE (calculateMonthlyFixedCosts d) (\<lambda>monthlyFixedCosts.
     bindE (calculateMonthlyLaborCosts d) (\<lambda>monthlyLaborCosts.
     bindE (calculateMonthlyUtilityCosts d) (\<lambda>monthlyUtilityCosts.
       let dailyRevenue = Some rev;
           monthlyTotal = addN (addN monthlyFixedCosts monthlyLaborCosts) monthlyUtilityCosts;
           grossProfitDaily = subN dailyRevenue dailyCOGS;
           operatingExpensesDaily = divN monthlyTotal (Some 30);
           operatingProfitDaily = subN grossProfitDaily operatingExpensesDaily
       in Inr \<lparr>daily = \<lparr>revenue = dailyRevenue, cogs = dailyCOGS,
                         grossProfit = grossProfitDaily,
                         operatingExpenses = operatingExpensesDaily,
                         operatingProfit = operatingProfitDaily\<rparr>,
               monthly = \<lparr>revenue = mulN dailyRevenue (Some 30),
                           cogs = mulN dailyCOGS (Some 30),
                           grossProfit = mulN grossProfitDaily (Some 30),
                           operatingExpenses = monthlyTotal,
                           operatingProfit = mulN operatingProfitDaily (Some 30)\<rparr>\<rparr>)))))"

text \<open>\<open>v || 0\<close> read as a number, and \<open>c > 0 ? x : 0\<close>.\<close>

definition orZero :: "jsval \<Rightarrow> num" where
  "orZero v = (if truthy v then numOf v else Some 0)"

fun whenPositive :: "num \<Rightarrow> num \<Rightarrow> num" where
  "whenPositive (Some c) x = (if c > 0 then x else Some 0)"
| "whenPositive None x = None"

definition contributionMargin :: "real \<Rightarrow> jsval \<Rightarrow> real" where
  "contributionMargin tot menu =
     (if \<not> truthy menu then tot
      else (case propOf ''price'' menu of
              JNum p \<Rightarrow> tot + (p - calculateVariableCostPerUnit menu)
            | _ \<Rightarrow> tot))"

definition directLabor :: "real \<Rightarrow> jsval \<Rightarrow> real" where
  "directLabor tot labor =
     (if \<not> truthy labor then tot
      else (case (propOf ''wagePerHour'' labor, propOf ''hoursPerDay'' labor) of
              (JNum w, JNum h) \<Rightarrow> tot + w * h
            | _ \<Rightarrow> tot))"

text \<open>
  \<open>x || 0\<close> on a figure of the profit and loss statement.  A number of the model is falsy
  only when it is 0.  A figure outside the model may be NaN, which \<open>|| 0\<close> turns into 0, or
  an infinity or a string, which it keeps; the model cannot tell them apart and keeps
  \<open>None\<close>, the figure it does not know.  The guard \<open>!pnl || !pnl.daily\<close> at the head of
  \<open>calculateKPIs\<close> never fires: \<open>calculatePnL\<close> always returns an object with a \<open>daily\<close>
  object.
\<close>

fun orZeroN :: "num \<Rightarrow> num" where
  "orZeroN (Some r) = (if r \<noteq> 0 then Some r else Some 0)"
| "orZeroN None = None"

definition calculateKPIs :: "PnL \<Rightarrow> jsval \<Rightarrow> js_error + FinancialMetrics" where
  "calculateKPIs p d =
     (let revenue = orZeroN (revenue (daily p));
          grossProfit = orZeroN (grossProfit (daily p));
          operatingProfit = orZeroN (operatingProfit (daily p))
      in
      bindE (get ''menus'' d) (\<lambda>ms.
        if \<not> truthy ms \<or> \<not> isArray ms \<or> length (elems ms) = 0
        then Inr getDefaultFinancialMetrics
        else
          let totCM = foldl contributionMargin 0 (elems ms);
              avgCM = totCM / real (length (elems ms))
          in
          bindE (calculateMonthlyFixedCosts d) (\<lambda>fixed.
          bindE (calculateMonthlyLaborCosts d) (\<lambda>labor.
          bindE (calculateMonthlyUtilityCosts d) (\<lambda>utilities.
          bindE (asArray (propOf ''labor'' d)) (\<lambda>ls.
            let monthlyFixedTotal = addN (addN fixed labor) utilities;
                bepUnits = (if avgCM > 0 then divN monthlyFixedTotal (Some avgCM) else Some 0);
                bepPerDay = divN bepUnits (Some 30);
                directLaborCost =
                  foldl directLabor 0
                    (filter (\<lambda>l. truthy l \<and> propOf ''type'' l = JStr ''direct'') ls);
                foodCost = orZeroN (cogs (daily p));
                primeCost = addN foodCost (Some directLaborCost);
                primeCostPct = whenPositive revenue (mulN (divN primeCost revenue) (Some 100));
                foodCostPct = whenPositive revenue (mulN (divN foodCost revenue) (Some 100));
                laborPct =
                  whenPositive revenue (mulN (divN (Some directLaborCost) revenue) (Some 100));
                avgMenuPrice =
                  divN (foldl (\<lambda>sum menu. addN sum (orZero (propOf ''price'' menu)))
                          (Some 0) (elems ms))
                    (Some (real (length (elems ms))));
                cmPct =
                  whenPositive avgMenuPrice (mulN (divN (Some avgCM) avgMenuPrice) (Some 100));
                forecastUnits = orZero (propOf ''forecastDailyUnits'' (propOf ''salesModel'' d));
                safetyMargin =
                  whenPositive forecastUnits
                    (mulN (divN (subN forecastUnits bepPerDay) forecastUnits) (Some 100));
                avgTicket = whenPositive forecastUnits (divN revenue forecastUnits)
            in Inr \<lparr>kpiRevenue = revenue, kpiGrossProfit = grossProfit,
                    kpiOperatingProfit = operatingProfit, netProfit = operatingProfit,
                    primeCostPct = primeCostPct, foodCostPct = foodCostPct,
                    laborPct = laborPct, cmPct = cmPct, bepUnits = bepUnits,
                    bepPerDay = bepPerDay, safetyMargin = safetyMargin,
                    avgTicket = avgTicket\<rparr>))))))"

definition menuMetrics :: "jsval \<Rightarrow> js_error + MenuMetrics" where
  "menuMetrics menu =
     (let v = calculateVariableCostPerUnit menu in
      bindE (get ''price'' menu) (\<lambda>p.
        let c = subN (numOf p) (Some v);
            cPct = mulN (divN c (numOf p)) (Some 100)
        in Inr \<lparr>mmId = propOf ''id'' menu, mmName = propOf ''name'' menu, mmPrice = p,
                vc = Some v, cm = c, mmCmPct = cPct\<rparr>))"

definition calculateMenuMetrics :: "jsval \<Rightarrow> js_error + MenuMetrics list" where
  "calculateMenuMetrics d =
     bindE (get ''menus'' d) (\<lambda>ms. bindE (asArray ms) (\<lambda>xs. mapE menuMetrics xs))"

definition calculateSensitivity :: "(real \<times> real) list" where
  "calculateSensitivity = [(- 10, 15), (- 5, 7.5), (0, 0), (5, - 7.5), (10, - 15)]"

text \<open>The body of the \<open>try\<close> in \<open>compute\<close>, and \<open>compute\<close> with its \<open>catch\<close>.  The handler
  builds the default report, which reads nothing that can throw.\<close>

definition computeBody :: "jsval \<Rightarrow> js_error + Report" where
  "computeBody d =
     (if \<not> validateData d then Inr getDefaultComputationResult
      else
        bindE (calculatePnL d) (\<lambda>p.
        bindE (calculateKPIs p d) (\<lambda>k.
        bindE (calculateMenuMetrics d) (\<lambda>ms.
          Inr \<lparr>pnl = p, kpis = k, menus = ms, sensitivity = calculateSensitivity,
               reportError = None\<rparr>))))"

definition compute :: "jsval \<Rightarrow> js_error + Report" where
  "compute d =
     (case computeBody d of
        Inr r \<Rightarrow> Inr r
      | Inl e \<Rightarrow> Inr getDefaultComputationResult)"

section \<open>Serialisation and storage\<close>

text \<open>
  A string that the program hands to \<open>JSON.parse\<close> or receives from \<open>JSON.stringify\<close> is
  modelled by what it denotes: the empty string, a text that is not JSON, or the JSON text
  of a value.  Two results of \<open>JSON.stringify\<close> are equal strings exactly when they denote
  the same value, and \<open>JSON.stringify\<close> writes a value without its \<open>undefined\<close> entries:
  an \<open>undefined\<close> array element becomes \<open>null\<close>, an \<open>undefined\<close> property is left out,
  and \<open>JSON.stringify(undefined)\<close> is \<open>undefined\<close>, not a string.
\<close>

datatype jstring = EmptyText | Malformed | JsonText jsval

fun jsonClean :: "jsval \<Rightarrow> jsval" where
  "jsonClean (JArr xs) = JArr (map (\<lambda>x. if x = JUndefined then JNull else jsonClean x) xs)"
| "jsonClean (JObj kvs) =
     JObj (map (\<lambda>kv. (fst kv, jsonClean (snd kv))) (filter (\<lambda>kv. snd kv \<noteq> JUndefined) kvs))"
| "jsonClean v = v"

definition stringify :: "jsval \<Rightarrow> jstring option" where
  "stringify v = (if v = JUndefined then None else Some (JsonText (jsonClean v)))"

text \<open>\<open>String(s)\<close> of a string or \<open>undefined\<close>: \<open>undefined\<close> becomes the text
  \<open>"undefined"\<close>, which is not JSON.\<close>

fun toText :: "jstring option \<Rightarrow> jstring" where
  "toText None = Malformed"
| "toText (Some t) = t"

fun parse :: "jstring \<Rightarrow> js_error + jsval" where
  "parse (JsonText v) = Inr v"
| "parse t = Inl SyntaxError"

text \<open>\<open>JSON.parse(JSON.stringify(v))\<close>.\<close>

definition jsonCopy :: "jsval \<Rightarrow> js_error + jsval" where
  "jsonCopy v = parse (toText (stringify v))"

text \<open>A string or \<open>null\<close> is truthy when it is a non-empty string.\<close>

fun textTruthy :: "jstring option \<Rightarrow> bool" where
  "textTruthy None = False"
| "textTruthy (Some EmptyText) = False"
| "textTruthy (Some t) = True"

text \<open>Assignment \<open>o[k] = v\<close> on the property list of an object; also \<open>setItem\<close> on a
  store and \<open>set\<close> on a \<open>Map\<close>.\<close>

fun assign :: "'k \<Rightarrow> 'a \<Rightarrow> ('k \<times> 'a) list \<Rightarrow> ('k \<times> 'a) list" where
  "assign k v [] = [(k, v)]"
| "assign k v ((k', v') # kvs) = (if k = k' then (k, v) # kvs else (k', v') # assign k v kvs)"

text \<open>
  \<open>localStorage\<close>: the stored items, whether the medium accepts a write (a full or disabled
  store makes \<open>setItem\<close> throw), and how many times \<open>setItem\<close> has been called.
\<close>

record Storage =
  items :: "(string \<times> jstring) list"
  writable :: bool
  setItemCalls :: nat

text \<open>\<open>setItem\<close> returns whether it completed, beside the store.\<close>

definition setItem :: "string \<Rightarrow> jstring \<Rightarrow> Storage \<Rightarrow> bool \<times> Storage" where
  "setItem k t st =
     (if writable st
      then (True, st\<lparr>items := assign k t (items st), setItemCalls := setItemCalls st + 1\<rparr>)
      else (False, st\<lparr>setItemCalls := setItemCalls st + 1\<rparr>))"

section \<open>FinanceEngine: data management\<close>

record FinanceEngine =
  data :: jsval
  scenarios :: jsval

text \<open>
  \<open>save\<close>: both writes sit in one \<open>try\<close> whose \<open>catch\<close> only logs, so \<open>save\<close> returns
  normally whether or not the writes went through.
\<close>

definition save :: "FinanceEngine \<Rightarrow> Storage \<Rightarrow> Storage" where
  "save e st =
     (case setItem ''finance_data'' (toText (stringify (data e))) st of
        (False, st1) \<Rightarrow> st1
      | (True, st1) \<Rightarrow> snd (setItem ''finance_scenarios'' (toText (stringify (scenarios e))) st1))"

definition load :: "jsval \<Rightarrow> FinanceEngine \<Rightarrow> FinanceEngine" where
  "load d e = e\<lparr>data := d\<rparr>"

text \<open>The message of a caught error; the wording of the built-in errors is the host's.\<close>

fun message :: "js_error \<Rightarrow> string" where
  "message TypeError = ''TypeError''"
| "message SyntaxError = ''SyntaxError''"
| "message StorageError = ''StorageError''"
| "message (Error m) = m"

record ImportResult =
  success :: bool
  importError :: "string option"

definition importFailed :: "string \<Rightarrow> ImportResult" where
  "importFailed m = \<lparr>success = False, importError = Some m\<rparr>"

text \<open>
  \<open>importJSON\<close>.  Every throw before the inner \<open>try\<close> (the parse, a read of a property of
  a \<open>null\<close> import, the two backup copies) lands in the outer \<open>catch\<close>.  Inside the inner
  \<open>try\<close> neither \<open>validateData\<close> nor \<open>save\<close> throws, so its \<open>catch\<close> is never entered.
\<close>

definition importJSON ::
  "jstring \<Rightarrow> FinanceEngine \<Rightarrow> Storage \<Rightarrow> ImportResult \<times> FinanceEngine \<times> Storage" where
  "importJSON jsonString e st =
     (if jsonString = EmptyText then (importFailed ''Invalid JSON string provided'', e, st)
      else
        (case parse jsonString of
           Inl err \<Rightarrow> (importFailed (''JSON parsing failed: '' @ message err), e, st)
         | Inr imported \<Rightarrow>
             (case get ''data'' imported of
                Inl err \<Rightarrow> (importFailed (''JSON parsing failed: '' @ message err), e, st)
              | Inr idata \<Rightarrow>
                  if \<not> truthy idata \<or> \<not> truthy (propOf ''scenarios'' imported)
                  then (importFailed ''Invalid data structure: missing data or scenarios'', e, st)
                  else if \<not> isArray (propOf ''menus'' idata)
                          \<or> \<not> isArray (propOf ''utilities'' idata)
                          \<or> \<not> isArray (propOf ''labor'' idata)
                          \<or> \<not> isArray (propOf ''fixedCosts'' idata)
                  then (importFailed
                          ''Invalid data structure: arrays expected for menus, utilities, labor, and fixedCosts'',
                        e, st)
                  else
                    (case bindE (jsonCopy (data e)) (\<lambda>bd.
                            bindE (jsonCopy (scenarios e)) (\<lambda>bs. Inr (bd, bs))) of
                       Inl err \<Rightarrow>
                         (importFailed (''JSON parsing failed: '' @ message err), e, st)
                     | Inr (backupData, backupScenarios) \<Rightarrow>
                         let e1 = e\<lparr>data := idata, scenarios := propOf ''scenarios'' imported\<rparr>
                         in if \<not> validateData (data e1)
                            then (importFailed ''Imported data failed validation'',
                                  e1\<lparr>data := backupData, scenarios := backupScenarios\<rparr>, st)
                            else (\<lparr>success = True, importError = None\<rparr>, e1, save e1 st)))))"

text \<open>
  \<open>a === b\<close> where one side is a property read from the dataset.  Primitives compare by
  value.  Two objects or arrays are equal only when they are the same reference, which
  values cannot tell; every such comparison is taken to be between different references.
\<close>

fun strictEq :: "jsval \<Rightarrow> jsval \<Rightarrow> bool" where
  "strictEq (JArr a) b = False"
| "strictEq (JObj a) b = False"
| "strictEq a b = (a = b)"

text \<open>\<open>menus.findIndex(m => m.id === menuId)\<close> and \<open>menus.some(m => m.id === id)\<close>: both
  stop at the first match, and reading \<open>m.id\<close> of a nullish element throws.\<close>

fun findIndexById :: "jsval \<Rightarrow> jsval list \<Rightarrow> js_error + nat option" where
  "findIndexById i [] = Inr None"
| "findIndexById i (m # ms) =
     bindE (get ''id'' m) (\<lambda>mid.
       if strictEq mid i then Inr (Some 0)
       else bindE (findIndexById i ms) (\<lambda>r. Inr (map_option Suc r)))"

fun someById :: "jsval \<Rightarrow> jsval list \<Rightarrow> js_error + bool" where
  "someById i [] = Inr False"
| "someById i (m # ms) =
     bindE (get ''id'' m) (\<lambda>mid. if strictEq mid i then Inr True else someById i ms)"

text \<open>The own properties that an object spread \<open>{...v}\<close> copies.  Spreading \<open>null\<close>,
  \<open>undefined\<close>, a number or a boolean copies nothing; the index properties that a string or
  an array would contribute are not modelled.\<close>

fun ownProps :: "jsval \<Rightarrow> (string \<times> jsval) list" where
  "ownProps (JObj kvs) = kvs"
| "ownProps v = []"

definition spread :: "jsval \<Rightarrow> jsval \<Rightarrow> jsval" where
  "spread a b = JObj (foldl (\<lambda>acc kv. assign (fst kv) (snd kv) acc) (ownProps a) (ownProps b))"

text \<open>\<open>o.k = v\<close>: the engine's class body is strict code, where the assignment throws on a
  primitive; an array cannot carry a named property in this model.\<close>

fun setProp :: "string \<Rightarrow> jsval \<Rightarrow> jsval \<Rightarrow> js_error + jsval" where
  "setProp k v (JObj kvs) = Inr (JObj (assign k v kvs))"
| "setProp k v d = Inl TypeError"

definition updateMenu ::
  "string \<Rightarrow> jsval \<Rightarrow> FinanceEngine \<Rightarrow> Storage \<Rightarrow> js_error + FinanceEngine \<times> Storage" where
  "updateMenu mId updates e st =
     bindE (get ''menus'' (data e)) (\<lambda>ms. bindE (asArray ms) (\<lambda>xs.
       bindE (findIndexById (JStr mId) xs) (\<lambda>menuIndex.
         case menuIndex of
           None \<Rightarrow> Inr (e, st)
         | Some i \<Rightarrow>
             bindE (setProp ''menus'' (JArr (xs[i := spread (xs ! i) updates])) (data e)) (\<lambda>d'.
               let e' = e\<lparr>data := d'\<rparr> in Inr (e', save e' st)))))"

text \<open>
  An operation of the engine that may throw after it has changed something returns the
  error it throws, if any, beside the engine and the store as it leaves them.
\<close>

type_synonym engineOp =
  "FinanceEngine \<Rightarrow> Storage \<Rightarrow> js_error option \<times> FinanceEngine \<times> Storage"

text \<open>
  \<open>addMenu\<close>.  It replaces a falsy \<open>menus\<close> by the empty list, looks for the id (the callback
  of \<open>some\<close> reads \<open>menu.id\<close>, and runs only on a list that has an element), and when no menu
  has the id it pushes the menu, reads \<open>menu.id\<close> once more for its log line, and saves: a
  \<open>null\<close> or \<open>undefined\<close> menu on an empty list is pushed, and the throw of the log line
  leaves it in the dataset, unsaved.
\<close>

definition addMenu :: "jsval \<Rightarrow> engineOp" where
  "addMenu menu e st =
     (case bindE (get ''menus'' (data e)) (\<lambda>ms0.
             if \<not> truthy ms0 then setProp ''menus'' (JArr []) (data e) else Inr (data e)) of
        Inl err \<Rightarrow> (Some err, e, st)
      | Inr d1 \<Rightarrow>
          let e1 = e\<lparr>data := d1\<rparr> in
          (case bindE (asArray (propOf ''menus'' d1)) (\<lambda>xs.
                  bindE (if xs = [] then Inr False
                         else bindE (get ''id'' menu) (\<lambda>i. someById i xs)) (\<lambda>exists.
                    Inr (xs, exists))) of
             Inl err \<Rightarrow> (Some err, e1, st)
           | Inr (xs, exists) \<Rightarrow>
               if \<not> exists
               then (case setProp ''menus'' (JArr (xs @ [menu])) d1 of
                       Inl err \<Rightarrow> (Some err, e1, st)
                     | Inr d2 \<Rightarrow>
                         let e2 = e1\<lparr>data := d2\<rparr> in
                         (case get ''id'' menu of
                            Inl err \<Rightarrow> (Some err, e2, st)
                          | Inr i \<Rightarrow> (None, e2, save e2 st)))
               else (None, e1, st)))"





section \<open>Coercions of the host\<close>

text \<open>
  The validator adds and compares values that it has not checked to be numbers, so what it
  does with them is fixed by the coercions of the language.  A number of the host is a
  double; a finite one is taken as the real it denotes.  The three operations on doubles
  that these coercions rest on -- printing a number, reading a number from a string, and
  the rounded sum of two numbers -- are parameters of the model, so that what is proved
  holds for every host.
\<close>

datatype jsnumber = Finite real | PosInfinity | NegInfinity | NaN

datatype jsprim = PUndefined | PNull | PBool bool | PNum jsnumber | PStr string

record Host =
  numberToString :: "jsnumber \<Rightarrow> string"
  stringToNumber :: "string \<Rightarrow> jsnumber"
  addDouble :: "jsnumber \<Rightarrow> jsnumber \<Rightarrow> jsnumber"

text \<open>\<open>Array.prototype.join\<close> with a separator.\<close>

fun joinWith :: "string \<Rightarrow> string list \<Rightarrow> string" where
  "joinWith sep [] = []"
| "joinWith sep [m] = m"
| "joinWith sep (m # ms) = m @ sep @ joinWith sep ms"

text \<open>
  The conversion of an object or an array to a primitive calls its \<open>valueOf\<close>, which
  returns the object itself, and then its \<open>toString\<close>.  The properties of the values of the
  model are data: an object with a property \<open>toString\<close> of its own has one that cannot be
  called, and its conversion throws a TypeError.  An array converts each element that is
  neither \<open>null\<close> nor \<open>undefined\<close>.
\<close>

fun convertible :: "jsval \<Rightarrow> bool" where
  "convertible (JObj kvs) = (map_of kvs ''toString'' = None)"
| "convertible (JArr xs) = list_all convertible xs"
| "convertible v = True"

text \<open>\<open>String(v)\<close> of a convertible value: an array prints its elements joined by commas,
  with nothing for \<open>null\<close> and \<open>undefined\<close>; an object prints as \<open>[object Object]\<close>.\<close>

fun toStringV :: "Host \<Rightarrow> jsval \<Rightarrow> string" where
  "toStringV h JUndefined = ''undefined''"
| "toStringV h JNull = ''null''"
| "toStringV h (JBool b) = (if b then ''true'' else ''false'')"
| "toStringV h (JNum r) = numberToString h (Finite r)"
| "toStringV h (JStr s) = s"
| "toStringV h (JArr xs) =
     joinWith '','' (map (\<lambda>x. if x = JUndefined \<or> x = JNull then [] else toStringV h x) xs)"
| "toStringV h (JObj kvs) = ''[object Object]''"

fun toPrimitive :: "Host \<Rightarrow> jsval \<Rightarrow> js_error + jsprim" where
  "toPrimitive h JUndefined = Inr PUndefined"
| "toPrimitive h JNull = Inr PNull"
| "toPrimitive h (JBool b) = Inr (PBool b)"
| "toPrimitive h (JNum r) = Inr (PNum (Finite r))"
| "toPrimitive h (JStr s) = Inr (PStr s)"
| "toPrimitive h v = (if convertible v then Inr (PStr (toStringV h v)) else Inl TypeError)"

fun primToString :: "Host \<Rightarrow> jsprim \<Rightarrow> string" where
  "primToString h PUndefined = ''undefined''"
| "primToString h PNull = ''null''"
| "primToString h (PBool b) = (if b then ''true'' else ''false'')"
| "primToString h (PNum n) = numberToString h n"
| "primToString h (PStr s) = s"

fun primToNumber :: "Host \<Rightarrow> jsprim \<Rightarrow> jsnumber" where
  "primToNumber h PUndefined = NaN"
| "primToNumber h PNull = Finite 0"
| "primToNumber h (PBool b) = Finite (if b then 1 else 0)"
| "primToNumber h (PNum n) = n"
| "primToNumber h (PStr s) = stringToNumber h s"

fun isPStr :: "jsprim \<Rightarrow> bool" where
  "isPStr (PStr s) = True"
| "isPStr p = False"

text \<open>\<open>a + b\<close> on primitives: the concatenation of the two strings when either is a
  string, else the sum of the two numbers.\<close>

definition plusPrim :: "Host \<Rightarrow> jsprim \<Rightarrow> jsprim \<Rightarrow> jsprim" where
  "plusPrim h a b =
     (if isPStr a \<or> isPStr b then PStr (primToString h a @ primToString h b)
      else PNum (addDouble h (primToNumber h a) (primToNumber h b)))"

text \<open>\<open>n <= c\<close> and \<open>n > c\<close> for a number \<open>n\<close> and a finite constant \<open>c\<close>; both are false of
  NaN.\<close>

fun leNum :: "jsnumber \<Rightarrow> real \<Rightarrow> bool" where
  "leNum (Finite r) c = (r \<le> c)"
| "leNum NegInfinity c = True"
| "leNum PosInfinity c = False"
| "leNum NaN c = False"

fun gtNum :: "jsnumber \<Rightarrow> real \<Rightarrow> bool" where
  "gtNum (Finite r) c = (r > c)"
| "gtNum PosInfinity c = True"
| "gtNum NegInfinity c = False"
| "gtNum NaN c = False"

section \<open>FinancialDataValidator\<close>

text \<open>
  A warning interpolates the offending value into its text; the model keeps the value
  beside the text.  The \<open>isNaN\<close> tests of the validator never fire on a real.
\<close>

type_synonym warning = "string \<times> jsprim"

record ValidationResult =
  isValid :: bool
  errors :: "string list"
  warnings :: "warning list"

definition mkResult :: "string list \<Rightarrow> warning list \<Rightarrow> ValidationResult" where
  "mkResult es ws = \<lparr>isValid = (length es = 0), errors = es, warnings = ws\<rparr>"

definition nullish :: "jsval \<Rightarrow> bool" where
  "nullish v = (v = JUndefined \<or> v = JNull)"

text \<open>\<open>!v || typeof v !== 'string'\<close>.\<close>

definition missingString :: "jsval \<Rightarrow> bool" where
  "missingString v = (\<not> truthy v \<or> \<not> isString v)"

text \<open>The shape \<open>if (typeof v !== 'number' || isNaN(v)) errors.push(m) else {...}\<close>: the
  messages pushed for a number, and the warnings pushed for it.\<close>

definition numErrors :: "jsval \<Rightarrow> string \<Rightarrow> (real \<Rightarrow> string list) \<Rightarrow> string list" where
  "numErrors v m f = (case v of JNum r \<Rightarrow> f r | _ \<Rightarrow> [m])"

definition numWarning :: "jsval \<Rightarrow> (real \<Rightarrow> bool) \<Rightarrow> string \<Rightarrow> warning list" where
  "numWarning v c m =
     (case v of JNum r \<Rightarrow> if c r then [(m, PNum (Finite r))] else [] | _ \<Rightarrow> [])"

definition errorIf :: "bool \<Rightarrow> string \<Rightarrow> string list" where
  "errorIf c m = (if c then [m] else [])"

text \<open>A word between double quotes.\<close>

definition quoted :: "string \<Rightarrow> string" where
  "quoted w = [CHR 0x22] @ w @ [CHR 0x22]"

text \<open>Decimal digits of an index, for \<open>`${index + 1}`\<close>.\<close>

fun showNat :: "nat \<Rightarrow> string" where
  "showNat n =
     (if n < 10 then [char_of (48 + n)] else showNat (n div 10) @ [char_of (48 + n mod 10)])"

definition validateBOMItem :: "jsval \<Rightarrow> js_error + ValidationResult" where
  "validateBOMItem b =
     (if nullish b then Inl TypeError
      else Inr (mkResult
        (errorIf (missingString (propOf ''item'' b)) ''Item name is required''
         @ numErrors (propOf ''qtyG'' b) ''Quantity (grams) must be a valid number''
             (\<lambda>r. errorIf (r < 0) ''Quantity must be at least 0'')
         @ numErrors (propOf ''unitCostPerKg'' b) ''Unit cost per kg must be a valid number''
             (\<lambda>r. errorIf (r < 0) ''Unit cost cannot be negative'')
         @ numErrors (propOf ''yieldPercent'' b) ''Yield percentage must be a valid number''
             (\<lambda>r. errorIf (r \<le> 0) ''Yield percentage must be greater than 0'')
         @ numErrors (propOf ''wastePercent'' b) ''Waste percentage must be a valid number''
             (\<lambda>r. errorIf (r < 0) ''Waste percentage cannot be negative'')
         @ (if truthy (propOf ''packaging'' b)
            then errorIf (\<not> isNumber (propOf ''qtyUnit'' (propOf ''packaging'' b)))
                   ''Packaging quantity must be a valid number''
                 @ numErrors (propOf ''unitCost'' (propOf ''packaging'' b))
                     ''Packaging unit cost must be a valid number''
                     (\<lambda>r. errorIf (r < 0) ''Packaging unit cost cannot be negative'')
            else []))
        (numWarning (propOf ''qtyG'' b) (\<lambda>r. r > 10000) ''Quantity seems high: g. Please verify.''
         @ numWarning (propOf ''unitCostPerKg'' b) (\<lambda>r. r > 1000)
             ''Unit cost seems high:  THB/kg. Please verify.''
         @ numWarning (propOf ''yieldPercent'' b) (\<lambda>r. r > 100)
             ''Yield percentage (%) seems high. Please verify.''
         @ numWarning (propOf ''wastePercent'' b) (\<lambda>r. r > 50)
             ''Waste percentage (%) seems high. Please verify.'')))"

text \<open>The \<open>forEach\<close> loops that validate the elements of a list and prefix each message
  with the kind and the one-based index of the element.\<close>

fun validateEach ::
  "(jsval \<Rightarrow> js_error + ValidationResult) \<Rightarrow> string \<Rightarrow> nat \<Rightarrow> jsval list
     \<Rightarrow> js_error + string list \<times> warning list" where
  "validateEach f kind i [] = Inr ([], [])"
| "validateEach f kind i (x # xs) =
     bindE (f x) (\<lambda>r.
     bindE (validateEach f kind (i + 1) xs) (\<lambda>rest.
       Inr (map (\<lambda>m. kind @ '' '' @ showNat (i + 1) @ '': '' @ m) (errors r) @ fst rest,
            map (\<lambda>w. (kind @ '' '' @ showNat (i + 1) @ '': '' @ fst w, snd w)) (warnings r)
              @ snd rest)))"

text \<open>\<open>v || 0\<close> as a value.\<close>

definition orZeroV :: "jsval \<Rightarrow> jsval" where
  "orZeroV v = (if truthy v then v else JNum 0)"

text \<open>
  The channel-mix total \<open>(dineIn || 0) + (takeaway || 0) + (delivery || 0)\<close> of a truthy
  channel mix.  The three components are whatever the payload holds: a component that is a
  string (or an array, or an object) makes the total a string, as in \<open>'0' + 0 + 0\<close>, which is
  \<open>'000'\<close>.  The comparisons \<open>total <= 0\<close> and \<open>total > 1.5\<close> then read the total as a
  number.
\<close>

definition channelMixTotal :: "Host \<Rightarrow> jsval \<Rightarrow> js_error + jsprim" where
  "channelMixTotal h c =
     bindE (toPrimitive h (orZeroV (propOf ''dineIn'' c))) (\<lambda>d.
     bindE (toPrimitive h (orZeroV (propOf ''takeaway'' c))) (\<lambda>t.
     bindE (toPrimitive h (orZeroV (propOf ''delivery'' c))) (\<lambda>v.
       Inr (plusPrim h (plusPrim h d t) v))))"

definition validateMenuItem :: "Host \<Rightarrow> jsval \<Rightarrow> js_error + ValidationResult" where
  "validateMenuItem h m =
     (if nullish m then Inl TypeError
      else
        bindE (if \<not> truthy (propOf ''channelMix'' m) then Inr None
               else bindE (channelMixTotal h (propOf ''channelMix'' m)) (\<lambda>t. Inr (Some t)))
          (\<lambda>tot.
        bindE (if isArray (propOf ''bom'' m)
               then validateEach validateBOMItem ''BOM item'' 0 (elems (propOf ''bom'' m))
               else Inr ([''BOM must be an array''], [])) (\<lambda>bomMessages.
          Inr (mkResult
            (errorIf (missingString (propOf ''id'' m)) ''Menu ID is required and must be a string''
             @ errorIf (missingString (propOf ''name'' m))
                 ''Menu name is required and must be a string''
             @ numErrors (propOf ''price'' m) ''Price must be a valid number''
                 (\<lambda>r. errorIf (r < 0.01) ''Price must be at least 0.01'')
             @ (case tot of
                  None \<Rightarrow> [''Channel mix is required'']
                | Some t \<Rightarrow>
                    errorIf (leNum (primToNumber h t) 0)
                      ''Channel mix total must be greater than 0'')
             @ fst bomMessages)
            (numWarning (propOf ''price'' m) (\<lambda>r. r > 10000) ''Price seems high: . Please verify.''
             @ (case tot of
                  None \<Rightarrow> []
                | Some t \<Rightarrow>
                    if gtNum (primToNumber h t) 1.5
                    then [(''Channel mix total () seems high. Please verify.'', t)] else [])
             @ snd bomMessages)))))"

definition validateSalesModel :: "jsval \<Rightarrow> js_error + ValidationResult" where
  "validateSalesModel sm =
     (if nullish sm then Inl TypeError
      else Inr (mkResult
        (numErrors (propOf ''forecastDailyUnits'' sm) ''Daily units forecast must be a valid number''
           (\<lambda>r. errorIf (r < 1) ''Daily units forecast must be at least 1'')
         @ numErrors (propOf ''paymentFeePercent'' sm)
             ''Payment fee percentage must be a valid number''
             (\<lambda>r. errorIf (r < 0) ''Payment fee percentage cannot be negative'')
         @ numErrors (propOf ''deliveryCommissionPercent'' sm)
             ''Delivery commission percentage must be a valid number''
             (\<lambda>r. errorIf (r < 0) ''Delivery commission percentage cannot be negative''))
        (numWarning (propOf ''forecastDailyUnits'' sm) (\<lambda>r. r > 1000)
           ''Daily units forecast () seems high. Please verify.''
         @ numWarning (propOf ''paymentFeePercent'' sm) (\<lambda>r. r > 10)
             ''Payment fee (%) seems high. Please verify.''
         @ numWarning (propOf ''deliveryCommissionPercent'' sm) (\<lambda>r. r > 50)
             ''Delivery commission (%) seems high. Please verify.'')))"

definition validateLaborItem :: "jsval \<Rightarrow> js_error + ValidationResult" where
  "validateLaborItem l =
     (if nullish l then Inl TypeError
      else Inr (mkResult
        (errorIf (missingString (propOf ''id'' l)) ''Labor ID is required''
         @ errorIf (missingString (propOf ''role'' l)) ''Role is required''
         @ errorIf (\<not> truthy (propOf ''type'' l)
                    \<or> propOf ''type'' l \<notin> set [JStr ''direct'', JStr ''indirect''])
             (''Type must be either '' @ quoted ''direct'' @ '' or '' @ quoted ''indirect'')
         @ numErrors (propOf ''wagePerHour'' l) ''Wage per hour must be a valid number''
             (\<lambda>r. errorIf (r < 0) ''Wage cannot be negative'')
         @ numErrors (propOf ''hoursPerDay'' l) ''Hours per day must be a valid number''
             (\<lambda>r. errorIf (r < 0) ''Hours per day must be at least 0''
                  @ errorIf (r > 24) ''Hours per day cannot exceed 24'')
         @ numErrors (propOf ''daysPerWeek'' l) ''Days per week must be a valid number''
             (\<lambda>r. errorIf (r < 0) ''Days per week must be at least 0''
                  @ errorIf (r > 7) ''Days per week cannot exceed 7''))
        (numWarning (propOf ''wagePerHour'' l) (\<lambda>r. r > 1000)
           ''Wage ( THB/hour) seems high. Please verify.'')))"

definition validateUtilityItem :: "jsval \<Rightarrow> js_error + ValidationResult" where
  "validateUtilityItem u =
     (if nullish u then Inl TypeError
      else Inr (mkResult
        (errorIf (missingString (propOf ''id'' u)) ''Utility ID is required''
         @ errorIf (\<not> truthy (propOf ''type'' u)
                    \<or> propOf ''type'' u \<notin> set [JStr ''electric'', JStr ''lpg'', JStr ''water''])
             (''Type must be '' @ quoted ''electric'' @ '', '' @ quoted ''lpg'' @ '', or ''
                @ quoted ''water'')
         @ errorIf (missingString (propOf ''device'' u)) ''Device name is required''
         @ (if propOf ''type'' u = JStr ''electric'' then
              numErrors (propOf ''kw'' u) ''KW rating is required for electric devices''
                (\<lambda>r. errorIf (r \<le> 0) ''KW rating must be greater than 0'')
              @ numErrors (propOf ''hoursPerDay'' u) ''Hours per day is required for electric devices''
                  (\<lambda>r. errorIf (r < 0 \<or> r > 24) ''Hours per day must be between 0 and 24'')
              @ numErrors (propOf ''ratePerKwh'' u) ''Rate per KWh is required for electric devices''
                  (\<lambda>r. errorIf (r < 0) ''Rate per KWh cannot be negative'')
            else if propOf ''type'' u = JStr ''lpg'' then
              numErrors (propOf ''kgPerBatch'' u) ''KG per batch is required for LPG devices''
                (\<lambda>r. errorIf (r \<le> 0) ''KG per batch must be greater than 0'')
              @ numErrors (propOf ''batchesPerDay'' u) ''Batches per day is required for LPG devices''
                  (\<lambda>r. errorIf (r < 0) ''Batches per day cannot be negative'')
              @ numErrors (propOf ''ratePerKg'' u) ''Rate per KG is required for LPG devices''
                  (\<lambda>r. errorIf (r < 0) ''Rate per KG cannot be negative'')
            else if propOf ''type'' u = JStr ''water'' then
              numErrors (propOf ''m3PerDay'' u) ''M3 per day is required for water devices''
                (\<lambda>r. errorIf (r < 0) ''M3 per day cannot be negative'')
              @ numErrors (propOf ''ratePerM3'' u) ''Rate per M3 is required for water devices''
                  (\<lambda>r. errorIf (r < 0) ''Rate per M3 cannot be negative'')
            else []))
        []))"

definition validateFixedCost :: "jsval \<Rightarrow> js_error + ValidationResult" where
  "validateFixedCost c =
     (if nullish c then Inl TypeError
      else Inr (mkResult
        (errorIf (missingString (propOf ''id'' c)) ''Fixed cost ID is required''
         @ errorIf (missingString (propOf ''name'' c)) ''Fixed cost name is required''
         @ numErrors (propOf ''amountPerMonth'' c) ''Amount per month must be a valid number''
             (\<lambda>r. errorIf (r < 0) ''Amount per month cannot be negative''))
        (numWarning (propOf ''amountPerMonth'' c) (\<lambda>r. r > 100000)
           ''Amount per month ( THB) seems high. Please verify.'')))"

text \<open>\<open>typeof v === 'object'\<close> holds of objects, arrays and \<open>null\<close>.\<close>

fun isObjectType :: "jsval \<Rightarrow> bool" where
  "isObjectType JNull = True"
| "isObjectType (JArr xs) = True"
| "isObjectType (JObj kvs) = True"
| "isObjectType v = False"

text \<open>The validation of one collection of the dataset, when it is an array.\<close>

definition validateList ::
  "(jsval \<Rightarrow> js_error + ValidationResult) \<Rightarrow> string \<Rightarrow> jsval
     \<Rightarrow> js_error + string list \<times> warning list" where
  "validateList f kind v = (if isArray v then validateEach f kind 0 (elems v) else Inr ([], []))"

definition validateAll :: "Host \<Rightarrow> jsval \<Rightarrow> js_error + ValidationResult" where
  "validateAll h d =
     (if \<not> truthy d \<or> \<not> isObjectType d
      then Inr \<lparr>isValid = False, errors = [''No data available for validation''], warnings = []\<rparr>
      else
        bindE (validateList (validateMenuItem h) ''Menu'' (propOf ''menus'' d)) (\<lambda>ms.
        bindE (if truthy (propOf ''salesModel'' d)
               then bindE (validateSalesModel (propOf ''salesModel'' d)) (\<lambda>r.
                      Inr (map (\<lambda>m. ''Sales Model: '' @ m) (errors r),
                           map (\<lambda>w. (''Sales Model: '' @ fst w, snd w)) (warnings r)))
               else Inr ([], [])) (\<lambda>sm.
        bindE (validateList validateLaborItem ''Labor'' (propOf ''labor'' d)) (\<lambda>ls.
        bindE (validateList validateUtilityItem ''Utility'' (propOf ''utilities'' d)) (\<lambda>us.
        bindE (validateList validateFixedCost ''Fixed Cost'' (propOf ''fixedCosts'' d)) (\<lambda>fs.
          Inr (mkResult (fst ms @ fst sm @ fst ls @ fst us @ fst fs)
                 (snd ms @ snd sm @ snd ls @ snd us @ snd fs))))))))"

text \<open>\<open>errors.join(', ')\<close>.\<close>

fun joinComma :: "string list \<Rightarrow> string" where
  "joinComma [] = []"
| "joinComma [m] = m"
| "joinComma (m # ms) = m @ '', '' @ joinComma ms"

section \<open>StateManager\<close>

text \<open>
  The application state, without its \<open>lastUpdated\<close> clock reading.  In the program
  \<open>state.data\<close> is a reference to the engine's dataset; here it is the value that the last
  applied \<open>DATA_UPDATE\<close> published.  \<open>Dataset\<close> in the theorems below is the engine's.
\<close>

record AppState =
  appData :: jsval
  appScenarios :: jsval
  currentScenario :: string
  computationResult :: "Report option"
  validationResults :: "ValidationResult list"
  isLoading :: bool
  appError :: "string option"

text \<open>A state update with the payload that its call sites build.\<close>

datatype StateUpdate =
    DATA_UPDATE jsval jsval
  | SCENARIO_UPDATE string
  | COMPUTATION_UPDATE Report
  | VALIDATION_UPDATE "ValidationResult list"
  | ERROR_UPDATE "string option"
  | LOADING_UPDATE bool

text \<open>A queued update with its \<open>skipAuto\<close> option (absent counts as false).\<close>

type_synonym QueuedUpdate = "StateUpdate \<times> bool"

text \<open>
  The state manager with the browser store its engine writes to.  A timer is modelled by
  whether it is pending: \<open>queueTimer\<close> for the zero-delay queue drain, \<open>syncTimer\<close> (with
  the reason it was armed for) for the debounced sync.  \<open>host\<close> is the host the program
  runs on, which nothing changes.  \<open>lastSavedDataString\<close> is \<open>None\<close>
  for the initial \<open>null\<close>, \<open>Some None\<close> for \<open>undefined\<close>, else a string.
  \<open>lastComputationHash\<close> is the serialised report, held as the report; as the report's
  clock reading is not modelled, two reports with the same figures are equal here, where
  the program's differ in \<open>computedAt\<close>.  Subscribers are presentation code and are not
  modelled; a throwing subscriber is caught where it is called.
\<close>

record StateManager =
  state :: AppState
  financeEngine :: FinanceEngine
  localStorage :: Storage
  validationCache :: "(jstring option \<times> ValidationResult) list"
  updateQueue :: "QueuedUpdate list"
  isProcessingQueue :: bool
  queueTimer :: bool
  lastSavedDataString :: "jstring option option"
  lastComputationHash :: "Report option"
  syncTimer :: "string option"
  isSyncInProgress :: bool
  host :: Host

definition updateState :: "StateUpdate \<Rightarrow> bool \<Rightarrow> StateManager \<Rightarrow> StateManager" where
  "updateState u skip s =
     (let s1 = s\<lparr>updateQueue := updateQueue s @ [(u, skip)]\<rparr>
      in if isProcessingQueue s1 then s1 else s1\<lparr>queueTimer := True\<rparr>)"

fun savedTruthy :: "jstring option option \<Rightarrow> bool" where
  "savedTruthy (Some t) = textTruthy t"
| "savedTruthy None = False"

text \<open>\<open>autoSave\<close>; nothing in its \<open>try\<close> throws.\<close>

definition autoSave :: "StateManager \<Rightarrow> StateManager" where
  "autoSave s =
     (let currentDataString = stringify (data (financeEngine s))
      in if lastSavedDataString s = Some currentDataString then s
         else s\<lparr>localStorage := save (financeEngine s) (localStorage s),
                lastSavedDataString := Some currentDataString\<rparr>)"

text \<open>\<open>validateAllData\<close> of the state manager, with its cache; a throw of the validator
  is caught and logged.\<close>

definition validateAllData :: "StateManager \<Rightarrow> StateManager" where
  "validateAllData s =
     (let dataHash = stringify (appData (state s))
      in case map_of (validationCache s) dataHash of
           Some cachedResult \<Rightarrow> updateState (VALIDATION_UPDATE [cachedResult]) False s
         | None \<Rightarrow>
             (case validateAll (host s) (appData (state s)) of
                Inl err \<Rightarrow> s
              | Inr validationResult \<Rightarrow>
                  updateState (VALIDATION_UPDATE [validationResult]) False
                    (s\<lparr>validationCache :=
                         assign dataHash validationResult (validationCache s)\<rparr>)))"

text \<open>\<open>computeAndValidate\<close>; \<open>compute\<close> reads the engine's dataset.\<close>

definition computeAndValidate :: "StateManager \<Rightarrow> StateManager" where
  "computeAndValidate s =
     (if \<not> truthy (appData (state s)) then updateState (LOADING_UPDATE False) False s
      else
        (case compute (data (financeEngine s)) of
           Inl err \<Rightarrow>
             updateState (ERROR_UPDATE (Some (''Computation failed: '' @ message err))) False s
         | Inr result \<Rightarrow>
             updateState (LOADING_UPDATE False) False
               (validateAllData (updateState (COMPUTATION_UPDATE result) False s))))"

fun updateType :: "StateUpdate \<Rightarrow> string" where
  "updateType (DATA_UPDATE d sc) = ''DATA_UPDATE''"
| "updateType (SCENARIO_UPDATE i) = ''SCENARIO_UPDATE''"
| "updateType (COMPUTATION_UPDATE r) = ''COMPUTATION_UPDATE''"
| "updateType (VALIDATION_UPDATE rs) = ''VALIDATION_UPDATE''"
| "updateType (ERROR_UPDATE e) = ''ERROR_UPDATE''"
| "updateType (LOADING_UPDATE b) = ''LOADING_UPDATE''"

text \<open>The \<open>switch\<close> of \<open>applyStateUpdate\<close> on the application state.  An update built by
  the program always passes \<open>validateStateUpdate\<close> and has an array of validation results.\<close>

fun applySwitch :: "StateUpdate \<Rightarrow> AppState \<Rightarrow> js_error + AppState" where
  "applySwitch (DATA_UPDATE d sc) a =
     (if \<not> isObjectType sc then Inl (Error ''Invalid data update payload'')
      else Inr (a\<lparr>appData := d, appScenarios := sc\<rparr>))"
| "applySwitch (SCENARIO_UPDATE i) a =
     bindE (get i (appScenarios a)) (\<lambda>sc.
       if \<not> truthy sc then Inl (Error (''Invalid scenario ID: '' @ i))
       else Inr (a\<lparr>currentScenario := i\<rparr>))"
| "applySwitch (COMPUTATION_UPDATE r) a = Inr (a\<lparr>computationResult := Some r\<rparr>)"
| "applySwitch (VALIDATION_UPDATE rs) a = Inr (a\<lparr>validationResults := rs\<rparr>)"
| "applySwitch (ERROR_UPDATE e) a = Inr (a\<lparr>appError := e, isLoading := False\<rparr>)"
| "applySwitch (LOADING_UPDATE b) a =
     (if isLoading a = b then Inr (if b then a\<lparr>appError := None\<rparr> else a)
      else Inr (if b then a\<lparr>isLoading := b, appError := None\<rparr> else a\<lparr>isLoading := b\<rparr>))"

fun isDataUpdate :: "StateUpdate \<Rightarrow> bool" where
  "isDataUpdate (DATA_UPDATE d sc) = True"
| "isDataUpdate u = False"

fun isErrorUpdate :: "StateUpdate \<Rightarrow> bool" where
  "isErrorUpdate (ERROR_UPDATE e) = True"
| "isErrorUpdate u = False"

text \<open>
  \<open>applyStateUpdate\<close> returns the error it re-throws, if any, beside the state manager.
  Only the \<open>switch\<close> can throw; it throws before it assigns, so restoring \<open>prevState\<close>
  restores the application state of the call.
\<close>

definition applyStateUpdate ::
  "StateUpdate \<Rightarrow> bool \<Rightarrow> StateManager \<Rightarrow> js_error option \<times> StateManager" where
  "applyStateUpdate u skipAuto s =
     (let prevState = state s in
      case applySwitch u (state s) of
        Inr a \<Rightarrow>
          let s1 = s\<lparr>state := a\<rparr>
          in if isDataUpdate u \<and> \<not> skipAuto then (None, computeAndValidate (autoSave s1))
             else (None, s1)
      | Inl err \<Rightarrow>
          let s1 = s\<lparr>state := prevState\<rparr>
          in if \<not> isErrorUpdate u
             then (Some err,
                   updateState
                     (ERROR_UPDATE
                        (Some (''State update failed ('' @ updateType u @ ''): '' @ message err)))
                     False s1)
             else (Some err, s1))"

text \<open>
  The \<open>while\<close> loop of \<open>processUpdateQueue\<close>.  An update that is applied may push
  further updates on the queue it is draining; the loop ends when the queue is empty or
  an update throws.  It terminates because only a \<open>DATA_UPDATE\<close> that runs its automatic
  save and recomputation pushes anything, and what it pushes are at most three updates
  that push nothing.
\<close>

fun updateWeight :: "QueuedUpdate \<Rightarrow> nat" where
  "updateWeight (DATA_UPDATE d sc, False) = 5"
| "updateWeight q = 1"

definition queueWeight :: "StateManager \<Rightarrow> nat" where
  "queueWeight s = sum_list (map updateWeight (updateQueue s))"

lemma queueWeight_updateState:
  "\<not> isDataUpdate u \<Longrightarrow> queueWeight (updateState u k s) = queueWeight s + 1"
  by (cases u) (simp_all add: queueWeight_def updateState_def Let_def)

lemma queueWeight_autoSave: "queueWeight (autoSave s) = queueWeight s"
  by (simp add: autoSave_def queueWeight_def Let_def)

lemma queueWeight_cache: "queueWeight (s\<lparr>validationCache := c\<rparr>) = queueWeight s"
  by (simp add: queueWeight_def)

lemma queueWeight_state: "queueWeight (s\<lparr>state := a\<rparr>) = queueWeight s"
  by (simp add: queueWeight_def)

lemma queueWeight_validateAllData: "queueWeight (validateAllData s) \<le> queueWeight s + 1"
  unfolding validateAllData_def Let_def
  by (simp add: queueWeight_updateState queueWeight_cache split: option.split sum.split)

lemma queueWeight_computeAndValidate: "queueWeight (computeAndValidate s) \<le> queueWeight s + 3"
proof (cases "truthy (appData (state s))")
  case False
  then show ?thesis by (simp add: computeAndValidate_def queueWeight_updateState)
next
  case True
  show ?thesis
  proof (cases "compute (data (financeEngine s))")
    case (Inl e)
    then show ?thesis using True by (simp add: computeAndValidate_def queueWeight_updateState)
  next
    case (Inr r)
    have "queueWeight (validateAllData (updateState (COMPUTATION_UPDATE r) False s))
            \<le> queueWeight s + 2"
      using queueWeight_validateAllData [of "updateState (COMPUTATION_UPDATE r) False s"]
      by (simp add: queueWeight_updateState)
    then show ?thesis using True Inr
      by (simp add: computeAndValidate_def queueWeight_updateState)
  qed
qed

lemma queueWeight_applyStateUpdate:
  assumes "applyStateUpdate u k s = (None, s')"
  shows "queueWeight s' < updateWeight (u, k) + queueWeight s"
proof (cases "applySwitch u (state s)")
  case (Inl e)
  then show ?thesis using assms by (simp add: applyStateUpdate_def Let_def split: if_splits)
next
  case (Inr a)
  show ?thesis
  proof (cases "isDataUpdate u \<and> \<not> k")
    case True
    then obtain d sc where u: "u = DATA_UPDATE d sc" by (cases u) auto
    from True have k: "k = False" by simp
    have s': "s' = computeAndValidate (autoSave (s\<lparr>state := a\<rparr>))"
      using assms Inr True by (simp add: applyStateUpdate_def Let_def)
    have "queueWeight s' \<le> queueWeight s + 3"
      unfolding s' using queueWeight_computeAndValidate [of "autoSave (s\<lparr>state := a\<rparr>)"]
      by (simp add: queueWeight_autoSave queueWeight_state)
    then show ?thesis by (simp add: u k)
  next
    case False
    then have s': "s' = s\<lparr>state := a\<rparr>"
      using assms Inr by (auto simp add: applyStateUpdate_def Let_def)
    have "updateWeight (u, k) \<ge> 1" by (cases u; cases k) simp_all
    then show ?thesis by (simp add: s' queueWeight_state)
  qed
qed

lemma drain_decreases:
  assumes q: "updateQueue s = (u, sk) # rest"
    and ap: "applyStateUpdate u (rest \<noteq> [] \<or> sk) (s\<lparr>updateQueue := rest\<rparr>) = (None, s')"
  shows "queueWeight s' < queueWeight s"
proof -
  from queueWeight_applyStateUpdate [OF ap]
  have "queueWeight s'
          < updateWeight (u, rest \<noteq> [] \<or> sk) + queueWeight (s\<lparr>updateQueue := rest\<rparr>)" .
  moreover have "updateWeight (u, rest \<noteq> [] \<or> sk) \<le> updateWeight (u, sk)"
    by (cases u; cases sk; cases "rest = []") simp_all
  moreover have "queueWeight s = updateWeight (u, sk) + queueWeight (s\<lparr>updateQueue := rest\<rparr>)"
    using q by (simp add: queueWeight_def)
  ultimately show ?thesis by simp
qed

function drainQueue :: "StateManager \<Rightarrow> js_error option \<times> StateManager" where
  "drainQueue s =
     (case updateQueue s of
        [] \<Rightarrow> (None, s)
      | (u, sk) # rest \<Rightarrow>
          (case applyStateUpdate u (rest \<noteq> [] \<or> sk) (s\<lparr>updateQueue := rest\<rparr>) of
             (None, s') \<Rightarrow> drainQueue s'
           | (Some err, s') \<Rightarrow> (Some err, s')))"
  by pat_completeness auto

termination
proof (relation "measure queueWeight")
  show "wf (measure queueWeight)" by simp
next
  fix s :: StateManager and x21 x22 x y and xa :: "js_error option" and ya
  assume "updateQueue s = x21 # x22" and "(x, y) = x21"
    and "(xa, ya) = applyStateUpdate x (x22 \<noteq> [] \<or> y) (s\<lparr>updateQueue := x22\<rparr>)"
    and "xa = None"
  then have "queueWeight ya < queueWeight s"
    using drain_decreases [of s x y x22 ya] by simp
  then show "(ya, s) \<in> measure queueWeight" by simp
qed

declare drainQueue.simps [simp del]


text \<open>\<open>processUpdateQueue\<close> with its \<open>finally\<close>, and the firing of the queue timer.\<close>

definition processUpdateQueue :: "StateManager \<Rightarrow> js_error option \<times> StateManager" where
  "processUpdateQueue s =
     (if isProcessingQueue s \<or> length (updateQueue s) = 0 then (None, s)
      else (case drainQueue (s\<lparr>isProcessingQueue := True\<rparr>) of
              (err, s') \<Rightarrow> (err, s'\<lparr>isProcessingQueue := False\<rparr>)))"

definition queueTimerFires :: "StateManager \<Rightarrow> js_error option \<times> StateManager" where
  "queueTimerFires s = processUpdateQueue (s\<lparr>queueTimer := False\<rparr>)"

text \<open>
  \<open>syncAfterDataChange\<close>: the part that runs at the call.  It either drops the trigger
  (a sync is running) or arms the debounce timer, replacing a pending one.
\<close>

definition syncAfterDataChange :: "string \<Rightarrow> StateManager \<Rightarrow> StateManager" where
  "syncAfterDataChange reason s =
     (if isSyncInProgress s then updateState (LOADING_UPDATE False) False s
      else s\<lparr>syncTimer := Some reason\<rparr>)"

text \<open>
  The callback that the debounce timer runs.  \<open>isSyncInProgress\<close> is set on entry and
  cleared on every way out.  \<open>save\<close> does not throw, so the assignment after it always
  runs; \<open>load\<close> hands the engine the dataset it already holds.
\<close>

definition syncTimerFires :: "StateManager \<Rightarrow> StateManager" where
  "syncTimerFires s0 =
     (let s = s0\<lparr>syncTimer := None, isSyncInProgress := True\<rparr>;
          d = data (financeEngine s)
      in if \<not> truthy d
         then (updateState (LOADING_UPDATE False) False s)\<lparr>isSyncInProgress := False\<rparr>
         else
           let dataString = stringify d
           in if savedTruthy (lastSavedDataString s) \<and> lastSavedDataString s = Some dataString
              then (updateState (LOADING_UPDATE False) False s)\<lparr>isSyncInProgress := False\<rparr>
              else
                let s1 = s\<lparr>localStorage := save (financeEngine s) (localStorage s),
                           lastSavedDataString := Some dataString\<rparr>;
                    s2 = s1\<lparr>financeEngine := load d (financeEngine s1)\<rparr>;
                    result = (case compute (data (financeEngine s2)) of
                                Inl err \<Rightarrow> None | Inr r \<Rightarrow> Some r);
                    s3 = updateState (DATA_UPDATE d (appScenarios (state s2))) True s2;
                    s4 = (case result of
                            None \<Rightarrow> s3
                          | Some r \<Rightarrow>
                              if lastComputationHash s3 \<noteq> Some r
                              then updateState (COMPUTATION_UPDATE r) True
                                     (s3\<lparr>lastComputationHash := Some r\<rparr>)
                              else s3);
                    s5 = validateAllData s4;
                    s6 = updateState (LOADING_UPDATE False) False s5
                in s6\<lparr>isSyncInProgress := False\<rparr>)"

text \<open>\<open>forceSave\<close>; nothing in its \<open>try\<close> throws.\<close>

definition forceSave :: "StateManager \<Rightarrow> StateManager" where
  "forceSave s =
     (let currentDataString = stringify (data (financeEngine s))
      in if savedTruthy (lastSavedDataString s) \<and> lastSavedDataString s = Some currentDataString
         then s
         else s\<lparr>localStorage := save (financeEngine s) (localStorage s),
                lastSavedDataString := Some currentDataString\<rparr>)"

text \<open>
  The six mutation methods share one skeleton: announce loading; validate the payload
  (a throw of the validator lands in the method's \<open>catch\<close>); on invalid input report the
  joined errors and return; otherwise run the engine operation, publish the engine's
  dataset with \<open>skipAuto\<close> and trigger the sync path; in the \<open>finally\<close>, clear loading.
  \<open>validation\<close> is the outcome of the validation step: a thrown error, or whether the
  payload is valid and the messages to join.  The engine operation returns the error it
  throws, if any, beside the engine and the store as it leaves them.
\<close>

definition mutation ::
  "js_error + bool \<times> string list \<Rightarrow> string \<Rightarrow> string \<Rightarrow> engineOp \<Rightarrow> string
     \<Rightarrow> StateManager \<Rightarrow> StateManager" where
  "mutation validation invalidPrefix failPrefix engineOp reason s =
     (let s1 = updateState (LOADING_UPDATE True) False s;
          s2 =
            (case validation of
               Inl err \<Rightarrow> updateState (ERROR_UPDATE (Some (failPrefix @ message err))) False s1
             | Inr (valid, errs) \<Rightarrow>
                 if \<not> valid
                 then updateState (ERROR_UPDATE (Some (invalidPrefix @ joinComma errs))) False s1
                 else
                   (case engineOp (financeEngine s1) (localStorage s1) of
                      (Some err, e', st') \<Rightarrow>
                        updateState (ERROR_UPDATE (Some (failPrefix @ message err))) False
                          (s1\<lparr>financeEngine := e', localStorage := st'\<rparr>)
                    | (None, e', st') \<Rightarrow>
                        let s3 = s1\<lparr>financeEngine := e', localStorage := st'\<rparr>
                        in syncAfterDataChange reason
                             (updateState (DATA_UPDATE (data e') (appScenarios (state s3))) True
                                s3)))
      in updateState (LOADING_UPDATE False) False s2)"


text \<open>The validation step of a method that validates one payload, and of one that
  validates every element of a list (\<open>map\<close>, \<open>some\<close>, \<open>filter\<close> and \<open>flatMap\<close>).\<close>

definition validateOne ::
  "(jsval \<Rightarrow> js_error + ValidationResult) \<Rightarrow> jsval \<Rightarrow> js_error + bool \<times> string list" where
  "validateOne f v = bindE (f v) (\<lambda>r. Inr (isValid r, errors r))"


text \<open>The menu that \<open>updateMenu\<close> of the state manager adds when the id is not found.  The
  generated name is a fixed Thai phrase (here its UTF-8 bytes) followed by the id.\<close>

definition newMenuPrefix :: string where
  "newMenuPrefix =
     [CHR 0xE0, CHR 0xB9, CHR 0x80, CHR 0xE0, CHR 0xB8, CHR 0xA1, CHR 0xE0, CHR 0xB8, CHR 0x99,
      CHR 0xE0, CHR 0xB8, CHR 0xB9, CHR 0xE0, CHR 0xB9, CHR 0x83, CHR 0xE0, CHR 0xB8, CHR 0xAB,
      CHR 0xE0, CHR 0xB8, CHR 0xA1, CHR 0xE0, CHR 0xB9, CHR 0x88, CHR 0x20]"

definition menuToAdd :: "string \<Rightarrow> jsval \<Rightarrow> jsval" where
  "menuToAdd mId updates =
     JObj [(''id'', JStr mId),
           (''name'', if truthy (propOf ''name'' updates) then propOf ''name'' updates
                      else JStr (newMenuPrefix @ mId)),
           (''price'', if isNumber (propOf ''price'' updates) then propOf ''price'' updates
                       else JNum 0),
           (''channelMix'', if truthy (propOf ''channelMix'' updates)
                            then propOf ''channelMix'' updates
                            else JObj [(''dineIn'', JNum 0.7), (''takeaway'', JNum 0.2),
                                       (''delivery'', JNum 0.1)]),
           (''bom'', if truthy (propOf ''bom'' updates) then propOf ''bom'' updates
                     else JArr [])]"

text \<open>\<open>getData()?.menus?.some(m => m.id === menuId)\<close>.\<close>

definition existingMenu :: "string \<Rightarrow> jsval \<Rightarrow> js_error + bool" where
  "existingMenu mId d =
     (if nullish d \<or> nullish (propOf ''menus'' d) then Inr False
      else bindE (asArray (propOf ''menus'' d)) (someById (JStr mId)))"

text \<open>
  The engine part of \<open>updateMenu\<close> of the state manager: update, save, and, when no menu
  has the id, add one.  The inner \<open>try\<close> swallows a throw of building or adding the menu,
  and keeps what \<open>addMenu\<close> of the engine had changed when it threw.
\<close>

definition updateOrAddMenu :: "string \<Rightarrow> jsval \<Rightarrow> engineOp" where
  "updateOrAddMenu mId updates e st =
     (case updateMenu mId updates e st of
        Inl err \<Rightarrow> (Some err, e, st)
      | Inr (e1, st1) \<Rightarrow>
          let st2 = save e1 st1 in
          (case existingMenu mId (data e1) of
             Inl err \<Rightarrow> (Some err, e1, st2)
           | Inr existing \<Rightarrow>
               if \<not> existing
               then (if nullish updates then (None, e1, st2)
                     else (case addMenu (menuToAdd mId updates) e1 st2 of
                             (err, e2, st3) \<Rightarrow> (None, e2, st3)))
               else (None, e1, st2)))"

definition sm_updateMenu :: "string \<Rightarrow> jsval \<Rightarrow> StateManager \<Rightarrow> StateManager" where
  "sm_updateMenu mId updates s =
     mutation (validateOne (validateMenuItem (host s)) updates) ''Menu validation failed: ''
       ''Failed to update menu: '' (updateOrAddMenu mId updates) ''updateMenu'' s"






text \<open>\<open>importData\<close>; nothing in its \<open>try\<close> throws.\<close>

definition importData :: "jstring \<Rightarrow> StateManager \<Rightarrow> ImportResult \<times> StateManager" where
  "importData jsonString s =
     (let s1 = updateState (LOADING_UPDATE True) False s
      in case importJSON jsonString (financeEngine s1) (localStorage s1) of
           (result, e', st') \<Rightarrow>
             let s2 = s1\<lparr>financeEngine := e', localStorage := st'\<rparr>
             in if success result
                then (result,
                      (computeAndValidate
                         (updateState (DATA_UPDATE (data e') (scenarios e')) False s2))
                      \<lparr>validationCache := []\<rparr>)
                else (result,
                      updateState
                        (ERROR_UPDATE
                           (case importError result of
                              Some m \<Rightarrow> if m \<noteq> [] then Some m else Some ''Import failed''
                            | None \<Rightarrow> Some ''Import failed'')) False s2))"




section \<open>What the specification says the two figures are\<close>

text \<open>One BOM line, in the words of the specification.\<close>

definition lineCost :: "BOMItem \<Rightarrow> real" where
  "lineCost b =
     (case packaging b of
        Some p \<Rightarrow> qtyUnit p * unitCost p
      | None \<Rightarrow>
          if yieldPercent b \<le> 0 then 0
          else (qtyG b / 1000) * (1 + max 0 (wastePercent b) / 100) / (yieldPercent b / 100)
               * unitCostPerKg b)"

definition menuRevenueSpec :: "real \<Rightarrow> MenuItem \<Rightarrow> real" where
  "menuRevenueSpec units m =
     price m * units *
       (max 0 (dineIn (channelMix m)) + max 0 (takeaway (channelMix m))
        + max 0 (delivery (channelMix m)))"

definition ingredient :: "real \<Rightarrow> real \<Rightarrow> real \<Rightarrow> real \<Rightarrow> BOMItem" where
  "ingredient g c y w =
     \<lparr>item = ''ingredient'', qtyG = g, unitCostPerKg = c, yieldPercent = y, wastePercent = w,
      packaging = None\<rparr>"

definition packagingLine :: "real \<Rightarrow> real \<Rightarrow> BOMItem" where
  "packagingLine q c =
     \<lparr>item = ''packaging'', qtyG = 0, unitCostPerKg = 0, yieldPercent = 100, wastePercent = 0,
      packaging = Some \<lparr>qtyUnit = q, unitCost = c\<rparr>\<rparr>"

definition menuOf :: "real \<Rightarrow> ChannelMix \<Rightarrow> BOMItem list \<Rightarrow> MenuItem" where
  "menuOf p c bs = \<lparr>menuId = ''m'', menuName = ''menu'', price = p, channelMix = c, bom = bs\<rparr>"

section \<open>Sample data\<close>

definition revenueData :: "real \<Rightarrow> MenuItem list \<Rightarrow> jsval" where
  "revenueData units ms =
     JObj [(''menus'', JArr (map js_of_MenuItem ms)),
           (''salesModel'', JObj [(''forecastDailyUnits'', JNum units)])]"

definition menuWithId :: "string \<Rightarrow> real \<Rightarrow> MenuItem" where
  "menuWithId i p =
     \<lparr>menuId = i, menuName = ''menu'', price = p,
      channelMix = \<lparr>dineIn = 0.7, takeaway = 0.2, delivery = 0.1\<rparr>, bom = []\<rparr>"

definition sampleData :: "real \<Rightarrow> jsval" where
  "sampleData units =
     JObj [(''menus'', JArr [js_of_MenuItem (menuWithId ''a'' 50)]),
           (''salesModel'', JObj [(''forecastDailyUnits'', JNum units)]),
           (''utilities'', JArr []), (''labor'', JArr []), (''fixedCosts'', JArr [])]"

definition sampleEngine :: FinanceEngine where
  "sampleEngine = \<lparr>data = sampleData 120, scenarios = JObj []\<rparr>"

definition emptyStorage :: Storage where
  "emptyStorage = \<lparr>items = [], writable = True, setItemCalls = 0\<rparr>"

text \<open>A dataset that passes \<open>validateData\<close> and holds \<open>null\<close> in place of a menu.\<close>

definition nullMenuData :: jsval where
  "nullMenuData =
     JObj [(''menus'', JArr [JNull]),
           (''salesModel'', JObj [(''forecastDailyUnits'', JNum 1)]),
           (''utilities'', JArr []), (''labor'', JArr []), (''fixedCosts'', JArr [])]"

section \<open>The statements of the claims\<close>

text \<open>The payloads that the specification says an import rejects: a string that is
  empty or not JSON, and a document that lacks \<open>data\<close> or \<open>scenarios\<close>, whose
  \<open>data.menus\<close>, \<open>data.utilities\<close>, \<open>data.labor\<close> or \<open>data.fixedCosts\<close> is not a list,
  or whose \<open>data\<close> fails the validation of the dataset.\<close>

fun importRejected :: "jstring \<Rightarrow> bool" where
  "importRejected (JsonText v) =
     (\<not> truthy (propOf ''data'' v) \<or> \<not> truthy (propOf ''scenarios'' v)
      \<or> \<not> isArray (propOf ''menus'' (propOf ''data'' v))
      \<or> \<not> isArray (propOf ''utilities'' (propOf ''data'' v))
      \<or> \<not> isArray (propOf ''labor'' (propOf ''data'' v))
      \<or> \<not> isArray (propOf ''fixedCosts'' (propOf ''data'' v))
      \<or> \<not> validateData (propOf ''data'' v))"
| "importRejected t = True"

text \<open>The updates of a list applied in turn to an application state; the first throw
  ends it.\<close>

fun applyAll :: "StateUpdate list \<Rightarrow> AppState \<Rightarrow> js_error + AppState" where
  "applyAll [] a = Inr a"
| "applyAll (u # us) a = bindE (applySwitch u a) (applyAll us)"



section \<open>Sample states and payloads\<close>

text \<open>
  The host of the samples.  It prints and reads the natural numbers in decimal as the
  language does, and adds two finite numbers exactly, which is the sum of the doubles
  whenever that sum is a double; the samples ask for no other conversion, and the
  rounding of a sum moves none of them across 0 or 1.5.
\<close>

fun readNat :: "nat \<Rightarrow> string \<Rightarrow> nat option" where
  "readNat n [] = Some n"
| "readNat n (c # cs) =
     (let d = (of_char c :: nat)
      in if 48 \<le> d \<and> d \<le> 57 then readNat (10 * n + (d - 48)) cs else None)"

fun addExact :: "jsnumber \<Rightarrow> jsnumber \<Rightarrow> jsnumber" where
  "addExact (Finite x) (Finite y) = Finite (x + y)"
| "addExact NaN b = NaN"
| "addExact a NaN = NaN"
| "addExact PosInfinity NegInfinity = NaN"
| "addExact NegInfinity PosInfinity = NaN"
| "addExact PosInfinity b = PosInfinity"
| "addExact NegInfinity b = NegInfinity"
| "addExact (Finite x) b = b"

definition sampleHost :: Host where
  "sampleHost =
     \<lparr>numberToString =
        (\<lambda>n. case n of
                Finite r \<Rightarrow> (if r < 0 then ''-'' else []) @ showNat (nat \<lfloor>\<bar>r\<bar>\<rfloor>)
              | PosInfinity \<Rightarrow> ''Infinity''
              | NegInfinity \<Rightarrow> ''-Infinity''
              | NaN \<Rightarrow> ''NaN''),
      stringToNumber =
        (\<lambda>w. case readNat 0 w of Some n \<Rightarrow> Finite (real n) | None \<Rightarrow> NaN),
      addDouble = addExact\<rparr>"

definition initialManager :: StateManager where
  "initialManager =
     \<lparr>state = \<lparr>appData = sampleData 120, appScenarios = JObj [], currentScenario = ''base'',
               computationResult = None, validationResults = [], isLoading = False,
               appError = None\<rparr>,
      financeEngine = sampleEngine, localStorage = emptyStorage, validationCache = [],
      updateQueue = [], isProcessingQueue = False, queueTimer = False,
      lastSavedDataString = None, lastComputationHash = None, syncTimer = None,
      isSyncInProgress = False, host = sampleHost\<rparr>"

definition missingSalesModelImport :: jstring where
  "missingSalesModelImport =
     JsonText (JObj [(''data'', JObj [(''menus'', JArr [js_of_MenuItem (menuWithId ''z'' 10)]),
                                      (''utilities'', JArr []), (''labor'', JArr []),
                                      (''fixedCosts'', JArr [])]),
                     (''scenarios'', JObj [])])"

definition savedManager :: StateManager where
  "savedManager = initialManager\<lparr>lastSavedDataString := Some (stringify (sampleData 120))\<rparr>"

definition failingManager :: StateManager where
  "failingManager = initialManager\<lparr>localStorage := emptyStorage\<lparr>writable := False\<rparr>\<rparr>"


definition newMenu :: jsval where
  "newMenu = js_of_MenuItem (menuWithId ''b'' 60)"










section \<open>Unit cost\<close>

lemma bomItemCost_typed: "bomItemCost tot (js_of_BOMItem b) = tot + lineCost b"
  by (cases "packaging b")
     (simp_all add: bomItemCost_def js_of_BOMItem_def js_of_Packaging_def lineCost_def Let_def)

lemma foldl_bomItemCost_typed:
  "foldl bomItemCost tot (map js_of_BOMItem bs) = tot + sum_list (map lineCost bs)"
  by (induction bs arbitrary: tot) (simp_all add: bomItemCost_typed)

lemma calculateVariableCostPerUnit_typed:
  "calculateVariableCostPerUnit (js_of_MenuItem m) = sum_list (map lineCost (bom m))"
  by (simp add: calculateVariableCostPerUnit_def js_of_MenuItem_def foldl_bomItemCost_typed)


text \<open>
  Claim C1, as amended.  For every menu item the variable cost per unit computed by
  \<open>calculateVariableCostPerUnit\<close> is the sum over its BOM lines of: \<open>qtyUnit * unitCost\<close>
  for a line with a packaging field; zero for an ingredient line with \<open>yieldPercent \<le> 0\<close>;
  \<open>(qtyG/1000) * (1 + max 0 wastePercent / 100) / (yieldPercent/100) * unitCostPerKg\<close>
  otherwise.  For the BOM of an ingredient (100 g, 50 per kg, yield 90, waste 5) and a
  packaging line (1 unit at 2) the result is 47/6, which is 7.83 to two decimals; with
  yield 0 on the ingredient, that line contributes nothing, no exception is raised, and the
  result is the packaging cost 2.
\<close>

theorem variable_cost_per_unit:
  "calculateVariableCostPerUnit (js_of_MenuItem m) = sum_list (map lineCost (bom m))
   \<and> calculateVariableCostPerUnit
         (js_of_MenuItem (menuOf 100 c [ingredient 100 50 90 5, packagingLine 1 2])) = 47 / 6
   \<and> \<bar>47 / 6 - 7.83\<bar> < (0.005 :: real)
   \<and> calculateVariableCostPerUnit
         (js_of_MenuItem (menuOf 100 c [ingredient 100 50 0 5, packagingLine 1 2])) = 2"
  by (simp add: calculateVariableCostPerUnit_typed menuOf_def lineCost_def ingredient_def
        packagingLine_def)

theorem variable_cost_per_unit_witness:
  "calculateVariableCostPerUnit
     (js_of_MenuItem (menuOf 50 \<lparr>dineIn = 0.7, takeaway = 0.2, delivery = 0.1\<rparr>
        [ingredient 120 70 85 5, packagingLine 1 2.5])) = 2189 / 170"
  using variable_cost_per_unit
    [of "menuOf 50 \<lparr>dineIn = 0.7, takeaway = 0.2, delivery = 0.1\<rparr>
           [ingredient 120 70 85 5, packagingLine 1 2.5]"]
  by (simp add: menuOf_def lineCost_def ingredient_def packagingLine_def)

text \<open>
  Claim C1 as stated says that with \<open>yieldPercent: 0\<close> on the ingredient of that BOM the
  result is 0.  The packaging line of the same BOM still counts: the result is 2.
\<close>

theorem variable_cost_zero_yield_counterexample:
  "calculateVariableCostPerUnit
     (js_of_MenuItem (menuOf 100 \<lparr>dineIn = 0.7, takeaway = 0.2, delivery = 0.1\<rparr>
        [ingredient 100 50 0 5, packagingLine 1 2])) \<noteq> 0"
  by (simp add: calculateVariableCostPerUnit_def js_of_MenuItem_def js_of_BOMItem_def
        js_of_Packaging_def menuOf_def ingredient_def packagingLine_def bomItemCost_def)

section \<open>Daily revenue\<close>

lemma menuRevenue_typed:
  "menuRevenue units tot (js_of_MenuItem m) = tot + menuRevenueSpec units m"
  by (simp add: menuRevenue_def js_of_MenuItem_def js_of_ChannelMix_def menuRevenueSpec_def
        Let_def algebra_simps)

lemma foldl_menuRevenue_typed:
  "foldl (menuRevenue units) tot (map js_of_MenuItem ms)
     = tot + sum_list (map (menuRevenueSpec units) ms)"
  by (induction ms arbitrary: tot) (simp_all add: menuRevenue_typed)

lemma propOf_defined_obj: "propOf k v \<noteq> JUndefined \<Longrightarrow> \<exists>kvs. v = JObj kvs"
  by (cases v) simp_all

lemma calculateDailyRevenue_typed:
  assumes fc: "propOf ''forecastDailyUnits'' (propOf ''salesModel'' d) = JNum units"
    and ms: "propOf ''menus'' d = JArr (map js_of_MenuItem ms)"
  shows "calculateDailyRevenue d = Inr (sum_list (map (menuRevenueSpec units) ms))"
proof -
  from ms obtain kvs where d: "d = JObj kvs"
    using propOf_defined_obj [of "''menus''" d] by auto
  from fc obtain sm where sm: "propOf ''salesModel'' d = JObj sm"
    using propOf_defined_obj [of "''forecastDailyUnits''" "propOf ''salesModel'' d"] by auto
  have g: "get ''salesModel'' d = Inr (JObj sm)"
    using sm by (simp add: d)
  show ?thesis
    unfolding calculateDailyRevenue_def g
    using fc ms by (simp add: sm foldl_menuRevenue_typed)
qed

text \<open>
  Claim C5.  For every dataset whose sales model has a numeric \<open>forecastDailyUnits\<close> and
  whose menus are well typed, the daily revenue is the sum over the menus of
  \<open>price * forecastDailyUnits * (max 0 dineIn + max 0 takeaway + max 0 delivery)\<close>: a negative
  channel-mix component counts as zero and rejects nothing.  The witness is the two
  scenarios of the specification: menus priced 100 and 150 with mixes summing to 1 and 50
  units a day give 12500, and the mix (-0.1, 0.5, 0.6) counts with the sum 1.1.
\<close>

theorem daily_revenue:
  assumes "propOf ''forecastDailyUnits'' (propOf ''salesModel'' d) = JNum units"
    and "propOf ''menus'' d = JArr (map js_of_MenuItem ms)"
  shows "calculateDailyRevenue d = Inr (sum_list (map (menuRevenueSpec units) ms))"
  using assms by (rule calculateDailyRevenue_typed)

theorem daily_revenue_witness:
  "calculateDailyRevenue
     (revenueData 50
        [menuOf 100 \<lparr>dineIn = 0.7, takeaway = 0.2, delivery = 0.1\<rparr> [],
         menuOf 150 \<lparr>dineIn = 0.5, takeaway = 0.5, delivery = 0\<rparr> []]) = Inr 12500
   \<and> calculateDailyRevenue
       (revenueData 50 [menuOf 100 \<lparr>dineIn = - 0.1, takeaway = 0.5, delivery = 0.6\<rparr> []])
     = Inr (100 * 50 * 1.1)"
proof -
  have a: "propOf ''forecastDailyUnits'' (propOf ''salesModel'' (revenueData 50 xs)) = JNum 50"
    for xs by (simp add: revenueData_def)
  have b: "propOf ''menus'' (revenueData 50 xs) = JArr (map js_of_MenuItem xs)"
    for xs by (simp add: revenueData_def)
  show ?thesis
    using daily_revenue [OF a b,
        of "[menuOf 100 \<lparr>dineIn = 0.7, takeaway = 0.2, delivery = 0.1\<rparr> [],
             menuOf 150 \<lparr>dineIn = 0.5, takeaway = 0.5, delivery = 0\<rparr> []]"]
      daily_revenue [OF a b,
        of "[menuOf 100 \<lparr>dineIn = - 0.1, takeaway = 0.5, delivery = 0.6\<rparr> []]"]
    by (simp add: menuRevenueSpec_def menuOf_def)
qed

section \<open>The computation never throws\<close>

lemmas engine_defs = compute_def computeBody_def validateData_def calculatePnL_def
  calculateDailyRevenue_def calculateDailyCOGS_def calculateMonthlyFixedCosts_def
  calculateMonthlyLaborCosts_def calculateMonthlyUtilityCosts_def calculateKPIs_def
  calculateMenuMetrics_def menuMetrics_def forecastDailyUnitsOf_def menuRevenue_def
  calculateVariableCostPerUnit_def js_of_MenuItem_def js_of_ChannelMix_def menuWithId_def
  contributionMargin_def orZero_def getDefaultComputationResult_def sampleData_def

lemma compute_returns: "\<exists>r. compute d = Inr r"
  by (cases "computeBody d") (simp_all add: compute_def)

lemma compute_invalid: "\<not> validateData d \<Longrightarrow> compute d = Inr getDefaultComputationResult"
  by (simp add: compute_def computeBody_def)

lemma elems_empty_isArray: "isArray v \<Longrightarrow> elems v = [] \<Longrightarrow> v = JArr []"
  by (cases v) simp_all

lemma validateData_iff:
  "validateData d \<longleftrightarrow>
     \<not> (\<not> truthy d \<or> \<not> truthy (propOf ''menus'' d) \<or> \<not> isArray (propOf ''menus'' d)
        \<or> propOf ''menus'' d = JArr []
        \<or> \<not> truthy (propOf ''salesModel'' d)
        \<or> \<not> isNumber (propOf ''forecastDailyUnits'' (propOf ''salesModel'' d))
        \<or> \<not> isArray (propOf ''utilities'' d) \<or> \<not> isArray (propOf ''labor'' d)
        \<or> \<not> isArray (propOf ''fixedCosts'' d))"
  by (auto simp add: validateData_def dest: elems_empty_isArray)

text \<open>The body of \<open>compute\<close> does throw on a dataset that passes the precheck: a \<open>null\<close>
  menu makes \<open>calculateMenuMetrics\<close> read a property of \<open>null\<close>.\<close>

lemma computeBody_throws: "computeBody nullMenuData = Inl TypeError"
  by (simp add: nullMenuData_def engine_defs Let_def)

text \<open>
  Claim C2, as amended.  \<open>compute\<close> returns a report for every dataset: it never
  propagates an exception.  Whenever the dataset fails the precheck (the dataset or its
  menu list absent, the menu list not an array or empty, the sales model absent or its
  \<open>forecastDailyUnits\<close> not a number, or one of utilities, labor and fixedCosts not an
  array) it returns the default report: every pnl and kpi figure 0, no menus, an empty
  sensitivity series, and an error string.  The precheck does not look at the sign of
  \<open>forecastDailyUnits\<close>.
\<close>

theorem compute_never_throws:
  "(\<exists>r. compute d = Inr r)
   \<and> (\<not> truthy d \<or> \<not> truthy (propOf ''menus'' d) \<or> \<not> isArray (propOf ''menus'' d)
        \<or> propOf ''menus'' d = JArr []
        \<or> \<not> truthy (propOf ''salesModel'' d)
        \<or> \<not> isNumber (propOf ''forecastDailyUnits'' (propOf ''salesModel'' d))
        \<or> \<not> isArray (propOf ''utilities'' d) \<or> \<not> isArray (propOf ''labor'' d)
        \<or> \<not> isArray (propOf ''fixedCosts'' d)
      \<longrightarrow> compute d = Inr getDefaultComputationResult)
   \<and> getDefaultComputationResult =
       \<lparr>pnl = \<lparr>daily = \<lparr>revenue = Some 0, cogs = Some 0, grossProfit = Some 0,
                         operatingExpenses = Some 0, operatingProfit = Some 0\<rparr>,
               monthly = \<lparr>revenue = Some 0, cogs = Some 0, grossProfit = Some 0,
                           operatingExpenses = Some 0, operatingProfit = Some 0\<rparr>\<rparr>,
        kpis = \<lparr>kpiRevenue = Some 0, kpiGrossProfit = Some 0, kpiOperatingProfit = Some 0,
                 netProfit = Some 0, primeCostPct = Some 0, foodCostPct = Some 0,
                 laborPct = Some 0, cmPct = Some 0, bepUnits = Some 0, bepPerDay = Some 0,
                 safetyMargin = Some 0, avgTicket = Some 0\<rparr>,
        menus = [], sensitivity = [],
        reportError = Some ''Computation failed due to invalid data''\<rparr>"
  using compute_returns [of d] compute_invalid [of d] validateData_iff [of d]
  by (simp add: getDefaultComputationResult_def zeroPeriod_def getDefaultFinancialMetrics_def)

theorem compute_never_throws_witness:
  "compute (JObj []) = Inr getDefaultComputationResult
   \<and> compute nullMenuData = Inr getDefaultComputationResult"
proof -
  have "compute nullMenuData = Inr getDefaultComputationResult"
    using compute_never_throws [of nullMenuData] computeBody_throws
    by (auto simp add: compute_def)
  then show ?thesis using compute_never_throws [of "JObj []"] by simp
qed

text \<open>
  Claim C2 as stated counts a negative \<open>forecastDailyUnits\<close> among the failures of the
  precheck.  The precheck accepts it: with -5 units a day the report is computed, with a
  daily revenue of -250 and no error string.
\<close>

theorem compute_negative_units_counterexample:
  "propOf ''forecastDailyUnits'' (propOf ''salesModel'' (sampleData (- 5))) = JNum (- 5)
   \<and> compute (sampleData (- 5)) \<noteq> Inr getDefaultComputationResult
   \<and> map_sum id (\<lambda>r. (revenue (daily (pnl r)), reportError r)) (compute (sampleData (- 5)))
       = Inr (Some (- 250), None)"
  by (simp add: engine_defs Let_def)

section \<open>Adding a menu\<close>

lemma map_of_assign_same [simp]: "map_of (assign k v kvs) k = Some v"
  by (induction kvs) auto

lemma map_of_assign_other [simp]: "k' \<noteq> k \<Longrightarrow> map_of (assign k v kvs) k' = map_of kvs k'"
  by (induction kvs) auto

lemma someById_typed:
  "someById (JStr i) (map js_of_MenuItem ms) = Inr (i \<in> set (map menuId ms))"
  by (induction ms) (auto simp add: js_of_MenuItem_def)

lemma addMenu_typed:
  assumes ms: "propOf ''menus'' (data e) = JArr (map js_of_MenuItem ms)"
  shows "addMenu (js_of_MenuItem m) e st =
           (if menuId m \<in> set (map menuId ms) then (None, e, st)
            else case data e of
                   JObj kvs \<Rightarrow>
                     (None,
                      e\<lparr>data := JObj (assign ''menus'' (JArr (map js_of_MenuItem (ms @ [m]))) kvs)\<rparr>,
                      save (e\<lparr>data := JObj (assign ''menus'' (JArr (map js_of_MenuItem (ms @ [m]))) kvs)\<rparr>) st))"
proof -
  from ms obtain kvs where d: "data e = JObj kvs"
    using propOf_defined_obj [of "''menus''" "data e"] by auto
  have g: "get ''menus'' (data e) = Inr (JArr (map js_of_MenuItem ms))"
    using ms by (simp add: d)
  have i: "get ''id'' (js_of_MenuItem m) = Inr (JStr (menuId m))"
    by (simp add: js_of_MenuItem_def)
  show ?thesis
  proof (cases ms)
    case Nil
    then show ?thesis using ms by (simp add: addMenu_def g d i Let_def)
  next
    case (Cons a as)
    then have ne: "map js_of_MenuItem ms \<noteq> []" by simp
    show ?thesis
      unfolding addMenu_def g
      using ms ne by (simp add: i someById_typed d Let_def del: someById.simps)
  qed
qed

text \<open>
  Claim C10.  \<open>addMenu\<close> of the engine preserves the uniqueness of menu ids: on a dataset
  whose menus have pairwise distinct ids, adding a menu whose id occurs already leaves
  the engine as it is and writes nothing to the store, and adding a menu with a fresh id
  appends exactly that menu (and saves); either way the call returns without a throw and
  the ids of the resulting menus are pairwise distinct.
\<close>

theorem addMenu_preserves_unique_ids:
  assumes ms: "propOf ''menus'' (data e) = JArr (map js_of_MenuItem ms)"
    and dist: "distinct (map menuId ms)"
  shows "\<exists>e' st' ms'.
           addMenu (js_of_MenuItem m) e st = (None, e', st')
           \<and> (menuId m \<in> set (map menuId ms) \<longrightarrow> e' = e \<and> st' = st \<and> ms' = ms)
           \<and> (menuId m \<notin> set (map menuId ms) \<longrightarrow> ms' = ms @ [m] \<and> st' = save e' st)
           \<and> propOf ''menus'' (data e') = JArr (map js_of_MenuItem ms')
           \<and> distinct (map menuId ms')"
proof (cases "menuId m \<in> set (map menuId ms)")
  case True
  then show ?thesis using addMenu_typed [OF ms, of m st] ms dist by auto
next
  case False
  from ms obtain kvs where d: "data e = JObj kvs"
    using propOf_defined_obj [of "''menus''" "data e"] by auto
  show ?thesis
    using addMenu_typed [OF ms, of m st] False dist by (simp add: d)
qed

theorem addMenu_preserves_unique_ids_witness:
  "addMenu (js_of_MenuItem (menuWithId ''a'' 60)) sampleEngine emptyStorage
     = (None, sampleEngine, emptyStorage)
   \<and> (\<exists>e' st'. addMenu (js_of_MenuItem (menuWithId ''b'' 60)) sampleEngine emptyStorage
                  = (None, e', st')
        \<and> propOf ''menus'' (data e')
            = JArr (map js_of_MenuItem [menuWithId ''a'' 50, menuWithId ''b'' 60])
        \<and> st' = save e' emptyStorage)"
proof -
  have ms: "propOf ''menus'' (data sampleEngine) = JArr (map js_of_MenuItem [menuWithId ''a'' 50])"
    by (simp add: sampleEngine_def sampleData_def)
  have dist: "distinct (map menuId [menuWithId ''a'' 50])" by simp
  show ?thesis
    using addMenu_preserves_unique_ids [OF ms dist, of "menuWithId ''a'' 60" emptyStorage]
      addMenu_preserves_unique_ids [OF ms dist, of "menuWithId ''b'' 60" emptyStorage]
    by (auto simp add: menuWithId_def)
qed

text \<open>\<open>addMenu\<close> with \<open>null\<close> for the menu, on a dataset with no menu: the \<open>null\<close> is pushed,
  the log line throws, and nothing is saved.\<close>

lemma addMenu_null_on_empty:
  "addMenu JNull \<lparr>data = JObj [(''menus'', JArr [])], scenarios = JObj []\<rparr> emptyStorage
     = (Some TypeError, \<lparr>data = JObj [(''menus'', JArr [JNull])], scenarios = JObj []\<rparr>,
        emptyStorage)"
  by (simp add: addMenu_def Let_def)

section \<open>Serialisation\<close>

lemma jsonClean_undef [simp]: "jsonClean v = JUndefined \<longleftrightarrow> v = JUndefined"
  by (cases v) simp_all

lemma jsonClean_idem: "jsonClean (jsonClean v) = jsonClean v"
proof (induction v)
  case (JArr xs)
  then show ?case by simp
next
  case (JObj kvs)
  have "\<And>kv. kv \<in> set kvs \<Longrightarrow> jsonClean (jsonClean (snd kv)) = jsonClean (snd kv)"
    using JObj by (metis prod.exhaust_sel snds.intros snd_conv)
  then show ?case by (simp add: filter_map o_def)
qed simp_all

lemma jsonCopy_eq: "jsonCopy v = (if v = JUndefined then Inl SyntaxError else Inr (jsonClean v))"
  by (simp add: jsonCopy_def stringify_def)

lemma stringify_jsonClean: "stringify (jsonClean v) = stringify v"
  by (simp add: stringify_def jsonClean_idem)

lemma get_propOf: "\<not> nullish v \<Longrightarrow> get k v = Inr (propOf k v)"
  by (cases v) (simp_all add: nullish_def)

lemma get_nullish: "nullish v \<Longrightarrow> get k v = Inl TypeError"
  by (cases v) (simp_all add: nullish_def)

lemma sampleData_clean: "jsonClean (sampleData u) = sampleData u"
  by (simp add: sampleData_def js_of_MenuItem_def js_of_ChannelMix_def menuWithId_def)

lemma importJSON_rejected:
  assumes "importRejected jsonString"
  shows "\<exists>m e'. importJSON jsonString e st = (\<lparr>success = False, importError = Some m\<rparr>, e', st)
           \<and> m \<noteq> []
           \<and> stringify (data e') = stringify (data e)
           \<and> stringify (scenarios e') = stringify (scenarios e)
           \<and> (jsonClean (data e) = data e \<and> jsonClean (scenarios e) = scenarios e \<longrightarrow> e' = e)"
proof (cases jsonString)
  case EmptyText
  then show ?thesis by (simp add: importJSON_def importFailed_def)
next
  case Malformed
  then show ?thesis by (simp add: importJSON_def importFailed_def)
next
  case (JsonText v)
  show ?thesis
  proof (cases "nullish v")
    case True
    then show ?thesis using JsonText
      by (simp add: importJSON_def importFailed_def get_nullish)
  next
    case False
    note g = get_propOf [OF False, of "''data''"]
    show ?thesis
    proof (cases "\<not> truthy (propOf ''data'' v) \<or> \<not> truthy (propOf ''scenarios'' v)")
      case True
      then show ?thesis using JsonText by (auto simp add: importJSON_def importFailed_def g)
    next
      case ds: False
      show ?thesis
      proof (cases "\<not> isArray (propOf ''menus'' (propOf ''data'' v))
                    \<or> \<not> isArray (propOf ''utilities'' (propOf ''data'' v))
                    \<or> \<not> isArray (propOf ''labor'' (propOf ''data'' v))
                    \<or> \<not> isArray (propOf ''fixedCosts'' (propOf ''data'' v))")
        case True
        then show ?thesis using JsonText ds
          by (auto simp add: importJSON_def importFailed_def g)
      next
        case arr: False
        then have inv: "\<not> validateData (propOf ''data'' v)"
          using assms JsonText ds by auto
        show ?thesis
        proof (cases "data e = JUndefined \<or> scenarios e = JUndefined")
          case True
          then show ?thesis using JsonText ds arr
            by (auto simp add: importJSON_def importFailed_def g jsonCopy_eq)
        next
          case False
          then show ?thesis using JsonText ds arr inv
            by (auto simp add: importJSON_def importFailed_def g jsonCopy_eq Let_def
                  stringify_jsonClean)
        qed
      qed
    qed
  qed
qed

section \<open>Draining the update queue\<close>

lemma drainQueue_nil: "updateQueue s = [] \<Longrightarrow> drainQueue s = (None, s)"
  by (subst drainQueue.simps) simp

lemma drainQueue_step:
  "updateQueue s = (u, sk) # rest
   \<Longrightarrow> applyStateUpdate u (rest \<noteq> [] \<or> sk) (s\<lparr>updateQueue := rest\<rparr>) = (None, s')
   \<Longrightarrow> drainQueue s = drainQueue s'"
  by (subst drainQueue.simps) simp

lemma drainQueue_throw:
  "updateQueue s = (u, sk) # rest
   \<Longrightarrow> applyStateUpdate u (rest \<noteq> [] \<or> sk) (s\<lparr>updateQueue := rest\<rparr>) = (Some err, s')
   \<Longrightarrow> drainQueue s = (Some err, s')"
  by (subst drainQueue.simps) simp

lemma applyStateUpdate_plain:
  "\<not> isDataUpdate u \<or> k \<Longrightarrow> applySwitch u (state s) = Inr a
   \<Longrightarrow> applyStateUpdate u k s = (None, s\<lparr>state := a\<rparr>)"
  by (auto simp add: applyStateUpdate_def Let_def)

text \<open>An update that throws while the queue is drained: the application state is put
  back, the report of the failure joins the queue, and the error is thrown on.\<close>

lemma applyStateUpdate_throw:
  assumes sw: "applySwitch u (state s) = Inl err" and p: "isProcessingQueue s"
  shows "applyStateUpdate u k s =
           (Some err,
            s\<lparr>updateQueue := updateQueue s
                 @ [(ERROR_UPDATE
                       (Some (''State update failed ('' @ updateType u @ ''): '' @ message err)),
                     False)]\<rparr>)"
proof -
  have ne: "\<not> isErrorUpdate u" using sw by (cases u) auto
  show ?thesis using sw p ne by (simp add: applyStateUpdate_def Let_def updateState_def)
qed

text \<open>Updates that are followed by further updates are applied with \<open>skipAuto\<close>: the
  drain runs them through the \<open>switch\<close> and nothing else.\<close>

lemma drain_pending:
  assumes "updateQueue t = q @ r" and "r \<noteq> []"
    and "applyAll (map fst q) (state t) = Inr a"
  shows "drainQueue t = drainQueue (t\<lparr>updateQueue := r, state := a\<rparr>)"
  using assms
proof (induction q arbitrary: t)
  case Nil
  then have "t\<lparr>updateQueue := r, state := a\<rparr> = t" by simp
  then show ?case by simp
next
  case (Cons x q)
  obtain u k where x: "x = (u, k)" by (cases x)
  from Cons.prems(3) obtain a1 where sw: "applySwitch u (state t) = Inr a1"
    and rest: "applyAll (map fst q) a1 = Inr a"
    by (cases "applySwitch u (state t)") (simp_all add: x)
  let ?t0 = "t\<lparr>updateQueue := q @ r\<rparr>"
  let ?t1 = "t\<lparr>updateQueue := q @ r, state := a1\<rparr>"
  have ne: "q @ r \<noteq> []" using Cons.prems(2) by simp
  have ap: "applyStateUpdate u (q @ r \<noteq> [] \<or> k) ?t0 = (None, ?t1)"
    using applyStateUpdate_plain [of u "q @ r \<noteq> [] \<or> k" ?t0 a1] sw ne by simp
  have q: "updateQueue t = (u, k) # (q @ r)" using Cons.prems(1) by (simp add: x)
  have "drainQueue t = drainQueue ?t1" by (rule drainQueue_step [OF q ap])
  also have "\<dots> = drainQueue (?t1\<lparr>updateQueue := r, state := a\<rparr>)"
    by (rule Cons.IH) (simp_all add: Cons.prems(2) rest)
  finally show ?case by simp
qed

lemma drain_pending_throw:
  assumes "updateQueue t = q @ r" and "r \<noteq> []" and "isProcessingQueue t"
    and "applyAll (map fst q) (state t) = Inl e"
  shows "fst (drainQueue t) = Some e
         \<and> set r \<subseteq> set (updateQueue (snd (drainQueue t)))
         \<and> financeEngine (snd (drainQueue t)) = financeEngine t
         \<and> localStorage (snd (drainQueue t)) = localStorage t
         \<and> syncTimer (snd (drainQueue t)) = syncTimer t
         \<and> lastSavedDataString (snd (drainQueue t)) = lastSavedDataString t
         \<and> lastComputationHash (snd (drainQueue t)) = lastComputationHash t"
  using assms
proof (induction q arbitrary: t)
  case Nil
  then show ?case by simp
next
  case (Cons x q)
  obtain u k where x: "x = (u, k)" by (cases x)
  let ?t0 = "t\<lparr>updateQueue := q @ r\<rparr>"
  have ne: "q @ r \<noteq> []" using Cons.prems(2) by simp
  have q: "updateQueue t = (u, k) # (q @ r)" using Cons.prems(1) by (simp add: x)
  show ?case
  proof (cases "applySwitch u (state t)")
    case (Inl err)
    then have e: "err = e" using Cons.prems(4) by (simp add: x)
    have ap: "applyStateUpdate u (q @ r \<noteq> [] \<or> k) ?t0 =
                (Some e,
                 ?t0\<lparr>updateQueue := updateQueue ?t0
                      @ [(ERROR_UPDATE
                            (Some (''State update failed ('' @ updateType u @ ''): '' @ message e)),
                          False)]\<rparr>)"
      by (rule applyStateUpdate_throw) (simp_all add: Inl e Cons.prems(3))
    show ?thesis unfolding drainQueue_throw [OF q ap] by auto
  next
    case (Inr a1)
    then have rest: "applyAll (map fst q) a1 = Inl e"
      using Cons.prems(4) by (simp add: x)
    let ?t1 = "t\<lparr>updateQueue := q @ r, state := a1\<rparr>"
    have ap: "applyStateUpdate u (q @ r \<noteq> [] \<or> k) ?t0 = (None, ?t1)"
      using applyStateUpdate_plain [of u "q @ r \<noteq> [] \<or> k" ?t0 a1] Inr ne by simp
    have d: "drainQueue t = drainQueue ?t1" by (rule drainQueue_step [OF q ap])
    have "fst (drainQueue ?t1) = Some e
         \<and> set r \<subseteq> set (updateQueue (snd (drainQueue ?t1)))
         \<and> financeEngine (snd (drainQueue ?t1)) = financeEngine ?t1
         \<and> localStorage (snd (drainQueue ?t1)) = localStorage ?t1
         \<and> syncTimer (snd (drainQueue ?t1)) = syncTimer ?t1
         \<and> lastSavedDataString (snd (drainQueue ?t1)) = lastSavedDataString ?t1
         \<and> lastComputationHash (snd (drainQueue ?t1)) = lastComputationHash ?t1"
      by (rule Cons.IH) (simp_all add: Cons.prems(2) Cons.prems(3) rest)
    then show ?thesis unfolding d by simp
  qed
qed


section \<open>Rejected mutations\<close>









lemmas validator_defs = validateMenuItem_def validateSalesModel_def validateFixedCost_def
  validateLaborItem_def validateUtilityItem_def validateBOMItem_def mkResult_def nullish_def
  missingString_def numErrors_def numWarning_def errorIf_def channelMixTotal_def orZeroV_def
  plusPrim_def

text \<open>
  A component of the channel mix that is a string makes the total a string: with \<open>'0'\<close> for
  \<open>dineIn\<close> the total is \<open>'000'\<close>, on every host that prints the number 0 as \<open>0\<close>, and the
  menu is rejected on every host that reads \<open>'000'\<close> as the number 0.
\<close>

lemma string_channel_mix_total:
  assumes "numberToString h (Finite 0) = ''0''"
  shows "channelMixTotal h
           (JObj [(''dineIn'', JStr ''0''), (''takeaway'', JNum 0), (''delivery'', JNum 0)])
         = Inr (PStr ''000'')"
  by (simp add: channelMixTotal_def orZeroV_def plusPrim_def assms)

lemma string_channel_mix_rejected:
  assumes "numberToString h (Finite 0) = ''0''" and "stringToNumber h ''000'' = Finite 0"
  shows "validateMenuItem h
           (JObj [(''id'', JStr ''a''), (''name'', JStr ''menu''), (''price'', JNum 50),
                  (''channelMix'', JObj [(''dineIn'', JStr ''0''), (''takeaway'', JNum 0),
                                         (''delivery'', JNum 0)]),
                  (''bom'', JArr [])])
         = Inr \<lparr>isValid = False, errors = [''Channel mix total must be greater than 0''],
                warnings = []\<rparr>"
  by (simp add: validateMenuItem_def string_channel_mix_total [OF assms(1)] assms(2) nullish_def
        mkResult_def missingString_def numErrors_def numWarning_def errorIf_def)

lemma showNat_digit:
  "showNat 0 = ''0''" "showNat (Suc 0) = ''1''" "showNat 1 = ''1''" "showNat 2 = ''2''"
  "showNat 3 = ''3''"
  by code_simp+

lemma readNat_zeros: "readNat 0 ''000'' = Some 0"
  by code_simp

lemma sampleHost_simps [simp]:
  "numberToString sampleHost (Finite 0) = ''0''"
  "stringToNumber sampleHost ''000'' = Finite 0"
  "addDouble sampleHost = addExact"
  by (simp_all add: sampleHost_def showNat_digit readNat_zeros del: showNat.simps readNat.simps)








lemma updateState_host [simp]: "host (updateState u k s) = host s"
  by (simp add: updateState_def Let_def)

lemma syncAfterDataChange_host [simp]: "host (syncAfterDataChange reason s) = host s"
  by (simp add: syncAfterDataChange_def)










section \<open>Rejected imports\<close>

lemma importData_rejected:
  assumes "importJSON jsonString (financeEngine s) (localStorage s)
             = (\<lparr>success = False, importError = Some m\<rparr>, e', localStorage s)"
    and "m \<noteq> []"
  shows "importData jsonString s =
           (\<lparr>success = False, importError = Some m\<rparr>,
            updateState (ERROR_UPDATE (Some m)) False
              ((updateState (LOADING_UPDATE True) False s)\<lparr>financeEngine := e'\<rparr>))"
  using assms by (simp add: importData_def Let_def updateState_def)

text \<open>
  Claim C4.  \<open>importJSON\<close> answers every rejected payload with \<open>success = false\<close> and a
  non-empty error, writes nothing to the store, and leaves dataset and scenarios
  untouched: their serialised content is the same, and they are the same values whenever
  they were JSON data (free of \<open>undefined\<close> entries) before the call, since the one path
  that assigns the import restores a \<open>JSON.parse(JSON.stringify(...))\<close> copy.
  \<open>importData\<close> of the state manager returns the same answer and queues the error.  The
  witness is the import without \<open>salesModel\<close>.
\<close>

theorem import_rejected:
  assumes "importRejected jsonString"
  shows "\<exists>m e'.
           importJSON jsonString (financeEngine s) (localStorage s)
             = (\<lparr>success = False, importError = Some m\<rparr>, e', localStorage s)
           \<and> m \<noteq> []
           \<and> stringify (data e') = stringify (data (financeEngine s))
           \<and> stringify (scenarios e') = stringify (scenarios (financeEngine s))
           \<and> (jsonClean (data (financeEngine s)) = data (financeEngine s)
                \<and> jsonClean (scenarios (financeEngine s)) = scenarios (financeEngine s)
              \<longrightarrow> e' = financeEngine s)
           \<and> importData jsonString s =
               (\<lparr>success = False, importError = Some m\<rparr>,
                updateState (ERROR_UPDATE (Some m)) False
                  ((updateState (LOADING_UPDATE True) False s)\<lparr>financeEngine := e'\<rparr>))"
proof -
  from importJSON_rejected [OF assms, of "financeEngine s" "localStorage s"]
  obtain m e' where r:
    "importJSON jsonString (financeEngine s) (localStorage s)
       = (\<lparr>success = False, importError = Some m\<rparr>, e', localStorage s)"
    "m \<noteq> []"
    "stringify (data e') = stringify (data (financeEngine s))"
    "stringify (scenarios e') = stringify (scenarios (financeEngine s))"
    "jsonClean (data (financeEngine s)) = data (financeEngine s)
       \<and> jsonClean (scenarios (financeEngine s)) = scenarios (financeEngine s)
     \<longrightarrow> e' = financeEngine s"
    by blast
  from importData_rejected [OF r(1) r(2)] r show ?thesis by blast
qed

theorem import_rejected_witness:
  "importJSON missingSalesModelImport sampleEngine emptyStorage
     = (\<lparr>success = False, importError = Some ''Imported data failed validation''\<rparr>,
        sampleEngine, emptyStorage)
   \<and> financeEngine (snd (importData missingSalesModelImport initialManager)) = sampleEngine
   \<and> localStorage (snd (importData missingSalesModelImport initialManager)) = emptyStorage"
proof -
  have rej: "importRejected missingSalesModelImport"
    by (simp add: missingSalesModelImport_def validateData_def)
  have e: "financeEngine initialManager = sampleEngine"
    and st: "localStorage initialManager = emptyStorage"
    by (simp_all add: initialManager_def)
  have clean: "jsonClean (data sampleEngine) = data sampleEngine"
    "jsonClean (scenarios sampleEngine) = scenarios sampleEngine"
    by (simp_all add: sampleEngine_def sampleData_clean)
  have direct: "fst (importJSON missingSalesModelImport sampleEngine emptyStorage)
      = \<lparr>success = False, importError = Some ''Imported data failed validation''\<rparr>"
    by (simp add: importJSON_def missingSalesModelImport_def validateData_def jsonCopy_eq
          sampleEngine_def sampleData_def importFailed_def Let_def)
  from import_rejected [OF rej, of initialManager]
  show ?thesis using clean direct by (auto simp add: e st updateState_def Let_def)
qed

section \<open>The sync cycle\<close>

lemma updateState_fields [simp]:
  "state (updateState u k s) = state s"
  "financeEngine (updateState u k s) = financeEngine s"
  "localStorage (updateState u k s) = localStorage s"
  "validationCache (updateState u k s) = validationCache s"
  "lastSavedDataString (updateState u k s) = lastSavedDataString s"
  "lastComputationHash (updateState u k s) = lastComputationHash s"
  "syncTimer (updateState u k s) = syncTimer s"
  "isSyncInProgress (updateState u k s) = isSyncInProgress s"
  "isProcessingQueue (updateState u k s) = isProcessingQueue s"
  "updateQueue (updateState u k s) = updateQueue s @ [(u, k)]"
  "queueTimer (updateState u k s) = (queueTimer s \<or> \<not> isProcessingQueue s)"
  by (auto simp add: updateState_def Let_def)

lemma validateAllData_fields [simp]:
  "state (validateAllData s) = state s"
  "financeEngine (validateAllData s) = financeEngine s"
  "localStorage (validateAllData s) = localStorage s"
  "lastSavedDataString (validateAllData s) = lastSavedDataString s"
  "lastComputationHash (validateAllData s) = lastComputationHash s"
  "syncTimer (validateAllData s) = syncTimer s"
  "isSyncInProgress (validateAllData s) = isSyncInProgress s"
  "isProcessingQueue (validateAllData s) = isProcessingQueue s"
  by (simp_all add: validateAllData_def Let_def split: option.split sum.split)

lemma stringify_truthy: "d \<noteq> JUndefined \<Longrightarrow> textTruthy (stringify d)"
  by (simp add: stringify_def)

lemma truthy_defined: "truthy d \<Longrightarrow> d \<noteq> JUndefined"
  by auto

text \<open>The sync callback on its three paths.\<close>

lemma sync_no_data:
  assumes "\<not> truthy (data (financeEngine s))"
  shows "syncTimerFires s =
           (updateState (LOADING_UPDATE False) False (s\<lparr>syncTimer := None\<rparr>))
             \<lparr>isSyncInProgress := False\<rparr>"
  using assms by (simp add: syncTimerFires_def Let_def updateState_def)

lemma sync_unchanged:
  assumes "truthy (data (financeEngine s))"
    and "lastSavedDataString s = Some (stringify (data (financeEngine s)))"
  shows "syncTimerFires s =
           (updateState (LOADING_UPDATE False) False (s\<lparr>syncTimer := None\<rparr>))
             \<lparr>isSyncInProgress := False\<rparr>"
  using assms stringify_truthy [OF truthy_defined [OF assms(1)]]
  by (simp add: syncTimerFires_def Let_def updateState_def)

lemma sync_changed:
  assumes "truthy (data (financeEngine s))"
    and "lastSavedDataString s \<noteq> Some (stringify (data (financeEngine s)))"
  shows "localStorage (syncTimerFires s) = save (financeEngine s) (localStorage s)"
    and "lastSavedDataString (syncTimerFires s) = Some (stringify (data (financeEngine s)))"
    and "financeEngine (syncTimerFires s) = financeEngine s"
    and "isSyncInProgress (syncTimerFires s) = False"
    and "syncTimer (syncTimerFires s) = None"
  using assms
  by (simp_all add: syncTimerFires_def Let_def load_def split: sum.split option.split)

lemma sync_storage_cases:
  "localStorage (syncTimerFires s) =
     (if truthy (data (financeEngine s))
         \<and> lastSavedDataString s \<noteq> Some (stringify (data (financeEngine s)))
      then save (financeEngine s) (localStorage s) else localStorage s)"
proof (cases "truthy (data (financeEngine s))")
  case False
  then show ?thesis by (simp add: sync_no_data)
next
  case True
  show ?thesis
  proof (cases "lastSavedDataString s = Some (stringify (data (financeEngine s)))")
    case True
    with \<open>truthy (data (financeEngine s))\<close> show ?thesis by (simp add: sync_unchanged)
  next
    case False
    with True show ?thesis by (simp add: sync_changed)
  qed
qed

lemma sync_engine [simp]: "financeEngine (syncTimerFires s) = financeEngine s"
proof (cases "truthy (data (financeEngine s))")
  case False
  then show ?thesis by (simp add: sync_no_data)
next
  case True
  then show ?thesis
    by (cases "lastSavedDataString s = Some (stringify (data (financeEngine s)))")
       (simp_all add: sync_unchanged sync_changed)
qed

lemma sync_lastSaved:
  "truthy (data (financeEngine s))
   \<Longrightarrow> lastSavedDataString (syncTimerFires s) = Some (stringify (data (financeEngine s)))"
  by (cases "lastSavedDataString s = Some (stringify (data (financeEngine s)))")
     (simp_all add: sync_unchanged sync_changed)

lemma sync_flag [simp]: "isSyncInProgress (syncTimerFires s) = False"
proof (cases "truthy (data (financeEngine s))")
  case False
  then show ?thesis by (simp add: sync_no_data)
next
  case True
  then show ?thesis
    by (cases "lastSavedDataString s = Some (stringify (data (financeEngine s)))")
       (simp_all add: sync_unchanged sync_changed)
qed

lemma sync_timer [simp]: "syncTimer (syncTimerFires s) = None"
proof (cases "truthy (data (financeEngine s))")
  case False
  then show ?thesis by (simp add: sync_no_data)
next
  case True
  then show ?thesis
    by (cases "lastSavedDataString s = Some (stringify (data (financeEngine s)))")
       (simp_all add: sync_unchanged sync_changed)
qed

lemma sync_twice: "localStorage (syncTimerFires (syncTimerFires s)) = localStorage (syncTimerFires s)"
  by (cases "truthy (data (financeEngine s))")
     (simp_all add: sync_storage_cases [of "syncTimerFires s"] sync_lastSaved)

lemma forceSave_fields:
  "financeEngine (forceSave s) = financeEngine s"
  "data (financeEngine s) \<noteq> JUndefined
   \<Longrightarrow> lastSavedDataString (forceSave s) = Some (stringify (data (financeEngine s)))"
  by (auto simp add: forceSave_def Let_def)

lemma forceSave_unchanged:
  "data (financeEngine s) \<noteq> JUndefined
   \<Longrightarrow> lastSavedDataString s = Some (stringify (data (financeEngine s)))
   \<Longrightarrow> forceSave s = s"
  by (simp add: forceSave_def Let_def stringify_truthy)

lemma forceSave_twice:
  "data (financeEngine s) \<noteq> JUndefined \<Longrightarrow> forceSave (forceSave s) = forceSave s"
  by (rule forceSave_unchanged) (simp_all add: forceSave_fields)

lemma sync_after_forceSave:
  "localStorage (syncTimerFires (forceSave s)) = localStorage (forceSave s)"
proof (cases "truthy (data (financeEngine s))")
  case True
  then show ?thesis
    by (simp add: sync_storage_cases [of "forceSave s"] forceSave_fields truthy_defined)
next
  case False
  then show ?thesis by (simp add: sync_storage_cases [of "forceSave s"] forceSave_fields)
qed

lemma forceSave_after_sync:
  "localStorage (forceSave (syncTimerFires s)) = localStorage (syncTimerFires s)
   \<or> localStorage (syncTimerFires s) = localStorage s"
proof (cases "truthy (data (financeEngine s))")
  case True
  then have "forceSave (syncTimerFires s) = syncTimerFires s"
    by (intro forceSave_unchanged) (simp_all add: sync_lastSaved truthy_defined)
  then show ?thesis by simp
next
  case False
  then show ?thesis by (simp add: sync_storage_cases)
qed

lemma applySwitch_loading_false:
  "applySwitch (LOADING_UPDATE False) a = Inr (a\<lparr>isLoading := False\<rparr>)"
  by (cases "isLoading a") simp_all

lemma drain_loading_false:
  assumes q: "updateQueue s = [(LOADING_UPDATE False, False)]"
  shows "drainQueue s = (None, s\<lparr>updateQueue := [], state := (state s)\<lparr>isLoading := False\<rparr>\<rparr>)"
proof -
  let ?s1 = "s\<lparr>updateQueue := [], state := (state s)\<lparr>isLoading := False\<rparr>\<rparr>"
  have 1: "applyStateUpdate (LOADING_UPDATE False) ([] \<noteq> [] \<or> False) (s\<lparr>updateQueue := []\<rparr>)
             = (None, ?s1)"
    by (simp add: applyStateUpdate_def applySwitch_loading_false del: applySwitch.simps)
  have "drainQueue s = drainQueue ?s1" using drainQueue_step [OF q 1] .
  also have "\<dots> = (None, ?s1)" by (rule drainQueue_nil) simp
  finally show ?thesis .
qed

lemma loading_clear_drained:
  assumes q: "updateQueue s = []" and p: "\<not> isProcessingQueue s"
  shows "queueTimerFires (updateState (LOADING_UPDATE False) False s) =
           (None, s\<lparr>updateQueue := [], isProcessingQueue := False, queueTimer := False,
                    state := (state s)\<lparr>isLoading := False\<rparr>\<rparr>)"
proof -
  let ?t = "s\<lparr>updateQueue := [(LOADING_UPDATE False, False)], queueTimer := False,
              isProcessingQueue := True\<rparr>"
  have u: "updateState (LOADING_UPDATE False) False s =
             s\<lparr>updateQueue := [(LOADING_UPDATE False, False)], queueTimer := True\<rparr>"
    using q p by (simp add: updateState_def Let_def)
  have d: "drainQueue ?t = (None, ?t\<lparr>updateQueue := [], state := (state ?t)\<lparr>isLoading := False\<rparr>\<rparr>)"
    by (rule drain_loading_false) simp
  show ?thesis
    unfolding u using p d by (simp add: queueTimerFires_def processUpdateQueue_def)
qed

text \<open>
  Claim C6.  When the serialised Dataset equals the content recorded at the last persist,
  the sync cycle does nothing but clear its timer and flag and queue the update that
  clears the loading flag: no write, no recomputation; once the queue drains, loading is
  cleared.  A forced save of such a dataset changes nothing at all.  Of two consecutive
  persist attempts with no mutation between them (sync cycles, forced saves of a dataset
  that is not \<open>undefined\<close>, or one of each) the second writes nothing, or the first
  wrote nothing: the store is written at most once.
\<close>

theorem idempotent_persistence:
  "(lastSavedDataString s = Some (stringify (data (financeEngine s)))
    \<longrightarrow> syncTimerFires s =
          (updateState (LOADING_UPDATE False) False (s\<lparr>syncTimer := None\<rparr>))
            \<lparr>isSyncInProgress := False\<rparr>
        \<and> (updateQueue s = [] \<and> \<not> isProcessingQueue s
           \<longrightarrow> (case queueTimerFires (syncTimerFires s) of
                  (err, s') \<Rightarrow>
                    err = None \<and> \<not> isLoading (state s')
                    \<and> localStorage s' = localStorage s
                    \<and> financeEngine s' = financeEngine s
                    \<and> computationResult (state s') = computationResult (state s)
                    \<and> lastComputationHash s' = lastComputationHash s)))
   \<and> (lastSavedDataString s = Some (stringify (data (financeEngine s)))
        \<and> data (financeEngine s) \<noteq> JUndefined
      \<longrightarrow> forceSave s = s)
   \<and> localStorage (syncTimerFires (syncTimerFires s)) = localStorage (syncTimerFires s)
   \<and> (data (financeEngine s) \<noteq> JUndefined
      \<longrightarrow> localStorage (forceSave (forceSave s)) = localStorage (forceSave s))
   \<and> localStorage (syncTimerFires (forceSave s)) = localStorage (forceSave s)
   \<and> (localStorage (forceSave (syncTimerFires s)) = localStorage (syncTimerFires s)
      \<or> localStorage (syncTimerFires s) = localStorage s)"
proof (intro conjI impI)
  assume a: "lastSavedDataString s = Some (stringify (data (financeEngine s)))"
  then show eq: "syncTimerFires s =
          (updateState (LOADING_UPDATE False) False (s\<lparr>syncTimer := None\<rparr>))
            \<lparr>isSyncInProgress := False\<rparr>"
    by (cases "truthy (data (financeEngine s))") (simp_all add: sync_unchanged sync_no_data)
  assume q: "updateQueue s = [] \<and> \<not> isProcessingQueue s"
  have eq': "syncTimerFires s =
      updateState (LOADING_UPDATE False) False (s\<lparr>syncTimer := None, isSyncInProgress := False\<rparr>)"
    unfolding eq by (simp add: updateState_def Let_def)
  show "case queueTimerFires (syncTimerFires s) of
          (err, s') \<Rightarrow>
            err = None \<and> \<not> isLoading (state s')
            \<and> localStorage s' = localStorage s
            \<and> financeEngine s' = financeEngine s
            \<and> computationResult (state s') = computationResult (state s)
            \<and> lastComputationHash s' = lastComputationHash s"
    unfolding eq'
    using q loading_clear_drained [of "s\<lparr>syncTimer := None, isSyncInProgress := False\<rparr>"]
    by simp
next
  assume "lastSavedDataString s = Some (stringify (data (financeEngine s)))
        \<and> data (financeEngine s) \<noteq> JUndefined"
  then show "forceSave s = s" by (simp add: forceSave_unchanged)
next
  show "localStorage (syncTimerFires (syncTimerFires s)) = localStorage (syncTimerFires s)"
    by (rule sync_twice)
next
  assume "data (financeEngine s) \<noteq> JUndefined"
  then show "localStorage (forceSave (forceSave s)) = localStorage (forceSave s)"
    by (simp add: forceSave_twice)
next
  show "localStorage (syncTimerFires (forceSave s)) = localStorage (forceSave s)"
    by (rule sync_after_forceSave)
next
  show "localStorage (forceSave (syncTimerFires s)) = localStorage (syncTimerFires s)
      \<or> localStorage (syncTimerFires s) = localStorage s"
    by (rule forceSave_after_sync)
qed

theorem idempotent_persistence_witness:
  "localStorage (syncTimerFires savedManager) = emptyStorage
   \<and> (case queueTimerFires (syncTimerFires savedManager) of
        (err, s') \<Rightarrow> err = None \<and> \<not> isLoading (state s') \<and> localStorage s' = emptyStorage)
   \<and> setItemCalls (localStorage (forceSave initialManager)) = 2
   \<and> setItemCalls (localStorage (forceSave (forceSave initialManager))) = 2"
proof -
  have a: "lastSavedDataString savedManager = Some (stringify (data (financeEngine savedManager)))"
    by (simp add: savedManager_def initialManager_def sampleEngine_def)
  have q: "updateQueue savedManager = [] \<and> \<not> isProcessingQueue savedManager"
    by (simp add: savedManager_def initialManager_def)
  have d: "data (financeEngine initialManager) \<noteq> JUndefined"
    by (simp add: initialManager_def sampleEngine_def sampleData_def)
  have f: "setItemCalls (localStorage (forceSave initialManager)) = 2"
    by (simp add: forceSave_def initialManager_def Let_def save_def setItem_def emptyStorage_def)
  have st: "localStorage savedManager = emptyStorage"
    by (simp add: savedManager_def initialManager_def)
  note fast = idempotent_persistence [of savedManager, THEN conjunct1, THEN mp, OF a]
  note 1 = fast [THEN conjunct1]
  note 2 = fast [THEN conjunct2, THEN mp, OF q]
  from idempotent_persistence [of initialManager] d
  have 3: "localStorage (forceSave (forceSave initialManager))
             = localStorage (forceSave initialManager)"
    by blast
  have c1: "localStorage (syncTimerFires savedManager) = emptyStorage"
    unfolding 1 by (simp add: st)
  have c2: "case queueTimerFires (syncTimerFires savedManager) of
        (err, s') \<Rightarrow> err = None \<and> \<not> isLoading (state s') \<and> localStorage s' = emptyStorage"
    using 2 unfolding st by (cases "queueTimerFires (syncTimerFires savedManager)") simp
  show ?thesis using c1 c2 f unfolding 3 by simp
qed

section \<open>A write that fails\<close>

lemma save_not_writable: "\<not> writable st \<Longrightarrow> items (save e st) = items st \<and> \<not> writable (save e st)"
  by (simp add: save_def setItem_def)

text \<open>
  Claim C8 fails on the code.  \<open>save\<close> of the engine catches the failure of the storage
  write itself, so the sync cycle cannot see it: with a store that rejects the write, the
  cycle stores nothing and still records the content as last persisted, and the next
  cycle takes the fast path and writes nothing, even once the store accepts writes again.
\<close>

theorem sync_records_content_when_write_fails:
  assumes "truthy (data (financeEngine s))"
    and "lastSavedDataString s \<noteq> Some (stringify (data (financeEngine s)))"
    and "\<not> writable (localStorage s)"
  shows "items (localStorage (syncTimerFires s)) = items (localStorage s)
         \<and> lastSavedDataString (syncTimerFires s) = Some (stringify (data (financeEngine s)))
         \<and> lastSavedDataString (syncTimerFires s) \<noteq> lastSavedDataString s
         \<and> localStorage
             (syncTimerFires
                ((syncTimerFires s)
                   \<lparr>localStorage := (localStorage (syncTimerFires s))\<lparr>writable := True\<rparr>\<rparr>))
           = (localStorage (syncTimerFires s))\<lparr>writable := True\<rparr>"
proof -
  let ?s1 = "syncTimerFires s"
  let ?s2 = "?s1\<lparr>localStorage := (localStorage ?s1)\<lparr>writable := True\<rparr>\<rparr>"
  have ls: "lastSavedDataString ?s1 = Some (stringify (data (financeEngine s)))"
    using assms by (simp add: sync_changed)
  have "localStorage ?s1 = save (financeEngine s) (localStorage s)"
    using assms by (simp add: sync_changed)
  then have it: "items (localStorage ?s1) = items (localStorage s)"
    using assms(3) by (simp add: save_not_writable)
  have "localStorage (syncTimerFires ?s2) = localStorage ?s2"
    using assms(1) ls by (simp add: sync_storage_cases [of ?s2])
  then show ?thesis using ls it assms(2) by simp
qed

theorem sync_records_content_when_write_fails_witness:
  "items (localStorage (syncTimerFires failingManager)) = []
   \<and> lastSavedDataString (syncTimerFires failingManager) = Some (stringify (sampleData 120))
   \<and> lastSavedDataString failingManager = None
   \<and> items (localStorage
        (syncTimerFires
           ((syncTimerFires failingManager)
              \<lparr>localStorage :=
                 (localStorage (syncTimerFires failingManager))\<lparr>writable := True\<rparr>\<rparr>))) = []"
proof -
  have a: "truthy (data (financeEngine failingManager))"
    "lastSavedDataString failingManager \<noteq> Some (stringify (data (financeEngine failingManager)))"
    "\<not> writable (localStorage failingManager)"
    by (simp_all add: failingManager_def initialManager_def sampleEngine_def sampleData_def
          emptyStorage_def)
  have d: "data (financeEngine failingManager) = sampleData 120"
    "items (localStorage failingManager) = []" "lastSavedDataString failingManager = None"
    by (simp_all add: failingManager_def initialManager_def sampleEngine_def emptyStorage_def)
  show ?thesis
    using sync_records_content_when_write_fails [OF a] by (simp add: d)
qed

section \<open>A trigger during a running sync\<close>

lemma autoSave_flag [simp]: "isSyncInProgress (autoSave s) = isSyncInProgress s"
  by (simp add: autoSave_def Let_def)

lemma computeAndValidate_flag [simp]:
  "isSyncInProgress (computeAndValidate s) = isSyncInProgress s"
  by (simp add: computeAndValidate_def split: sum.split)












section \<open>Updating a menu that is missing\<close>




lemma someById_findIndexById:
  "someById i xs = Inr False \<Longrightarrow> findIndexById i xs = Inr None"
proof (induction xs)
  case Nil
  then show ?case by simp
next
  case (Cons m ms)
  then show ?case
    by (cases "get ''id'' m") (auto split: if_splits)
qed

lemma someById_not_nullish:
  "someById i xs = Inr b \<Longrightarrow> m \<in> set xs \<Longrightarrow> b = False \<Longrightarrow> \<not> nullish m"
proof (induction xs)
  case Nil
  then show ?case by simp
next
  case (Cons a as)
  then show ?case
    by (cases "get ''id'' a") (auto simp add: get_nullish split: if_splits)
qed

lemma updateMenu_no_match:
  assumes ms: "propOf ''menus'' (data e) = JArr xs"
    and no: "someById (JStr mId) xs = Inr False"
  shows "updateMenu mId updates e st = Inr (e, st)"
proof -
  from ms obtain kvs where d: "data e = JObj kvs"
    using propOf_defined_obj [of "''menus''" "data e"] by auto
  have g: "get ''menus'' (data e) = Inr (JArr xs)" using ms by (simp add: d)
  show ?thesis
    unfolding updateMenu_def g by (simp add: someById_findIndexById [OF no])
qed

lemma existingMenu_no_match:
  assumes ms: "propOf ''menus'' (data e) = JArr xs"
    and no: "someById (JStr mId) xs = Inr False"
  shows "existingMenu mId (data e) = Inr False"
proof -
  from ms obtain kvs where d: "data e = JObj kvs"
    using propOf_defined_obj [of "''menus''" "data e"] by auto
  show ?thesis using ms no by (simp add: existingMenu_def nullish_def d)
qed

lemma addMenu_fresh:
  assumes ms: "propOf ''menus'' (data e) = JArr xs"
    and no: "someById (JStr mId) xs = Inr False"
    and mid: "propOf ''id'' menu = JStr mId" and nn: "\<not> nullish menu"
  shows "\<exists>e'. addMenu menu e st = (None, e', save e' st)
              \<and> propOf ''menus'' (data e') = JArr (xs @ [menu])
              \<and> scenarios e' = scenarios e"
proof -
  from ms obtain kvs where d: "data e = JObj kvs"
    using propOf_defined_obj [of "''menus''" "data e"] by auto
  have g: "get ''menus'' (data e) = Inr (JArr xs)" using ms by (simp add: d)
  have i: "get ''id'' menu = Inr (JStr mId)" using mid nn by (simp add: get_propOf)
  show ?thesis
    unfolding addMenu_def g using ms no by (simp add: i d Let_def)
qed

lemma menuToAdd_fields [simp]:
  "propOf ''id'' (menuToAdd mId u) = JStr mId"
  "\<not> nullish (menuToAdd mId u)"
  by (simp_all add: menuToAdd_def nullish_def)

lemma validateMenuItem_not_nullish: "validateMenuItem h u = Inr r \<Longrightarrow> \<not> nullish u"
  by (auto simp add: validateMenuItem_def)

lemma updateOrAddMenu_missing:
  assumes ms: "propOf ''menus'' (data e) = JArr xs"
    and no: "someById (JStr mId) xs = Inr False"
    and nn: "\<not> nullish updates"
  shows "\<exists>e'. updateOrAddMenu mId updates e st = (None, e', save e' (save e st))
              \<and> propOf ''menus'' (data e') = JArr (xs @ [menuToAdd mId updates])
              \<and> scenarios e' = scenarios e"
proof -
  from addMenu_fresh [OF ms no, of "menuToAdd mId updates" "save e st"]
  obtain e' where a: "addMenu (menuToAdd mId updates) e (save e st) = (None, e', save e' (save e st))"
    "propOf ''menus'' (data e') = JArr (xs @ [menuToAdd mId updates])"
    "scenarios e' = scenarios e"
    by auto
  have "updateOrAddMenu mId updates e st = (None, e', save e' (save e st))"
    unfolding updateOrAddMenu_def updateMenu_no_match [OF ms no]
    using nn a(1) by (simp add: existingMenu_no_match [OF ms no] Let_def)
  then show ?thesis using a by blast
qed

lemma mutation_accepted:
  assumes "op (financeEngine s) (localStorage s) = (None, e', st')"
  shows "mutation (Inr (True, errs)) ip fp op reason s =
           updateState (LOADING_UPDATE False) False
             (syncAfterDataChange reason
                (updateState (DATA_UPDATE (data e') (appScenarios (state s))) True
                   ((updateState (LOADING_UPDATE True) False s)
                      \<lparr>financeEngine := e', localStorage := st'\<rparr>)))"
  using assms by (simp add: mutation_def Let_def)

lemma mutation_applied:
  assumes "op (financeEngine s) (localStorage s) = (None, e', st')"
    and "\<not> isSyncInProgress s"
  shows "mutation (Inr (True, errs)) ip fp op reason s =
           updateState (LOADING_UPDATE False) False
             ((updateState (DATA_UPDATE (data e') (appScenarios (state s))) True
                 ((updateState (LOADING_UPDATE True) False s)
                    \<lparr>financeEngine := e', localStorage := st'\<rparr>))
                \<lparr>syncTimer := Some reason\<rparr>)"
  using assms by (simp add: mutation_def Let_def syncAfterDataChange_def)

lemma valid_menu_fields:
  assumes v: "validateMenuItem h u = Inr r" and iv: "isValid r"
  shows "truthy (propOf ''name'' u) \<and> isNumber (propOf ''price'' u)
         \<and> truthy (propOf ''channelMix'' u) \<and> isArray (propOf ''bom'' u)"
proof -
  let ?t = "if \<not> truthy (propOf ''channelMix'' u) then Inr None
            else bindE (channelMixTotal h (propOf ''channelMix'' u)) (\<lambda>t. Inr (Some t))"
  let ?b = "if isArray (propOf ''bom'' u)
            then validateEach validateBOMItem ''BOM item'' 0 (elems (propOf ''bom'' u))
            else Inr ([''BOM must be an array''], [])"
  have nn: "\<not> nullish u" using v by (rule validateMenuItem_not_nullish)
  obtain tot where t: "?t = Inr tot"
    using v nn by (cases ?t) (simp_all add: validateMenuItem_def)
  obtain bm :: "string list \<times> warning list" where b: "?b = Inr bm"
    using v nn unfolding validateMenuItem_def t by (cases ?b) simp_all
  have e: "errors r =
       errorIf (missingString (propOf ''id'' u)) ''Menu ID is required and must be a string''
       @ errorIf (missingString (propOf ''name'' u)) ''Menu name is required and must be a string''
       @ numErrors (propOf ''price'' u) ''Price must be a valid number''
           (\<lambda>r. errorIf (r < 0.01) ''Price must be at least 0.01'')
       @ (case tot of
            None \<Rightarrow> [''Channel mix is required'']
          | Some t \<Rightarrow>
              errorIf (leNum (primToNumber h t) 0) ''Channel mix total must be greater than 0'')
       @ fst bm"
    and l: "isValid r = (length (errors r) = 0)"
    using v nn unfolding validateMenuItem_def t b by (auto simp add: mkResult_def)
  from l iv have z: "errors r = []" by simp
  have 1: "errorIf (missingString (propOf ''name'' u))
             ''Menu name is required and must be a string'' = []"
    and 2: "numErrors (propOf ''price'' u) ''Price must be a valid number''
              (\<lambda>r. errorIf (r < 0.01) ''Price must be at least 0.01'') = []"
    and 3: "(case tot of
            None \<Rightarrow> [''Channel mix is required'']
          | Some t \<Rightarrow>
              errorIf (leNum (primToNumber h t) 0) ''Channel mix total must be greater than 0'')
            = []"
    and 4: "fst bm = []"
    using e unfolding z by simp_all
  from 1 have "truthy (propOf ''name'' u)"
    by (auto simp add: errorIf_def missingString_def split: if_splits)
  moreover from 2 have "isNumber (propOf ''price'' u)"
    by (cases "propOf ''price'' u") (simp_all add: numErrors_def)
  moreover from 3 t have "truthy (propOf ''channelMix'' u)"
    by (cases tot) (auto split: if_splits)
  moreover from 4 b have "isArray (propOf ''bom'' u)" by (auto split: if_splits)
  ultimately show ?thesis by simp
qed

lemma menuToAdd_valid:
  assumes "validateMenuItem h u = Inr r" and "isValid r"
  shows "menuToAdd mId u =
           JObj [(''id'', JStr mId), (''name'', propOf ''name'' u), (''price'', propOf ''price'' u),
                 (''channelMix'', propOf ''channelMix'' u), (''bom'', propOf ''bom'' u)]"
proof -
  from valid_menu_fields [OF assms] have f: "truthy (propOf ''name'' u)"
    "isNumber (propOf ''price'' u)" "truthy (propOf ''channelMix'' u)"
    "isArray (propOf ''bom'' u)" by simp_all
  from f(4) have "truthy (propOf ''bom'' u)" by (cases "propOf ''bom'' u") simp_all
  then show ?thesis using f by (simp add: menuToAdd_def)
qed

lemma menuToAdd_defaults:
  "menuToAdd mId (JObj []) =
     JObj [(''id'', JStr mId), (''name'', JStr (newMenuPrefix @ mId)), (''price'', JNum 0),
           (''channelMix'', JObj [(''dineIn'', JNum 0.7), (''takeaway'', JNum 0.2),
                                  (''delivery'', JNum 0.1)]),
           (''bom'', JArr [])]"
  by (simp add: menuToAdd_def)

lemma drain_publish:
  assumes q: "updateQueue s =
     [(LOADING_UPDATE True, False), (DATA_UPDATE d sc, True), (LOADING_UPDATE False, False)]"
    and sc: "isObjectType sc"
  shows "drainQueue s =
     (None, s\<lparr>updateQueue := [],
              state := (state s)\<lparr>appData := d, appScenarios := sc, isLoading := False,
                                appError := None\<rparr>\<rparr>)"
proof -
  let ?r1 = "[(DATA_UPDATE d sc, True), (LOADING_UPDATE False, False)]"
  let ?a1 = "(state s)\<lparr>isLoading := True, appError := None\<rparr>"
  let ?s1 = "s\<lparr>updateQueue := ?r1, state := ?a1\<rparr>"
  let ?a2 = "(state s)\<lparr>appData := d, appScenarios := sc, isLoading := True, appError := None\<rparr>"
  let ?s2 = "s\<lparr>updateQueue := [(LOADING_UPDATE False, False)], state := ?a2\<rparr>"
  let ?a3 = "(state s)\<lparr>appData := d, appScenarios := sc, isLoading := False, appError := None\<rparr>"
  let ?s3 = "s\<lparr>updateQueue := [], state := ?a3\<rparr>"
  have sw1: "applySwitch (LOADING_UPDATE True) (state s) = Inr ?a1"
    by (cases "isLoading (state s)") simp_all
  have 1: "applyStateUpdate (LOADING_UPDATE True) (?r1 \<noteq> [] \<or> False) (s\<lparr>updateQueue := ?r1\<rparr>)
             = (None, ?s1)"
    using applyStateUpdate_plain [of "LOADING_UPDATE True" _ "s\<lparr>updateQueue := ?r1\<rparr>" ?a1] sw1
    by simp
  have 2: "applyStateUpdate (DATA_UPDATE d sc) ([(LOADING_UPDATE False, False)] \<noteq> [] \<or> True)
             (?s1\<lparr>updateQueue := [(LOADING_UPDATE False, False)]\<rparr>) = (None, ?s2)"
    using sc by (simp add: applyStateUpdate_def)
  have 3: "applyStateUpdate (LOADING_UPDATE False) ([] \<noteq> [] \<or> False) (?s2\<lparr>updateQueue := []\<rparr>)
             = (None, ?s3)"
    by (simp add: applyStateUpdate_def)
  have "drainQueue s = drainQueue ?s1" using drainQueue_step [OF q 1] .
  also have "\<dots> = drainQueue ?s2" by (rule drainQueue_step [OF _ 2]) simp
  also have "\<dots> = drainQueue ?s3" by (rule drainQueue_step [OF _ 3]) simp
  also have "\<dots> = (None, ?s3)" by (rule drainQueue_nil) simp
  finally show ?thesis .
qed


lemma publish_drained:
  assumes p: "\<not> isProcessingQueue s" and sc: "isObjectType sc"
    and q: "updateQueue s' =
              updateQueue s
              @ [(LOADING_UPDATE True, False), (DATA_UPDATE d sc, True),
                 (LOADING_UPDATE False, False)]"
    and p': "\<not> isProcessingQueue s'"
  shows "case queueTimerFires s' of
           (err, s'') \<Rightarrow>
             financeEngine s'' = financeEngine s' \<and> localStorage s'' = localStorage s'
             \<and> syncTimer s'' = syncTimer s'
             \<and> (case applyAll (map fst (updateQueue s)) (state s') of
                   Inr a \<Rightarrow>
                     err = None \<and> updateQueue s'' = []
                     \<and> state s'' = a\<lparr>appData := d, appScenarios := sc, isLoading := False,
                                      appError := None\<rparr>
                 | Inl e \<Rightarrow> err = Some e)"
proof -
  let ?r = "[(LOADING_UPDATE True, False), (DATA_UPDATE d sc, True),
             (LOADING_UPDATE False, False)]"
  let ?t = "s'\<lparr>queueTimer := False, isProcessingQueue := True\<rparr>"
  have fire: "queueTimerFires s' =
                (fst (drainQueue ?t), (snd (drainQueue ?t))\<lparr>isProcessingQueue := False\<rparr>)"
    using p' q by (simp add: queueTimerFires_def processUpdateQueue_def split_beta)
  have qt: "updateQueue ?t = updateQueue s @ ?r" using q by simp
  have ne: "?r \<noteq> []" by simp
  show ?thesis
  proof (cases "applyAll (map fst (updateQueue s)) (state s')")
    case (Inr a)
    have "drainQueue ?t = drainQueue (?t\<lparr>updateQueue := ?r, state := a\<rparr>)"
      by (rule drain_pending [OF qt ne]) (simp add: Inr)
    also have "\<dots> =
        (None, (?t\<lparr>updateQueue := ?r, state := a\<rparr>)
                 \<lparr>updateQueue := [],
                  state := (state (?t\<lparr>updateQueue := ?r, state := a\<rparr>))
                            \<lparr>appData := d, appScenarios := sc, isLoading := False,
                             appError := None\<rparr>\<rparr>)"
      by (rule drain_publish [OF _ sc]) simp
    finally show ?thesis unfolding fire by (simp add: Inr)
  next
    case (Inl e)
    have "fst (drainQueue ?t) = Some e
         \<and> set ?r \<subseteq> set (updateQueue (snd (drainQueue ?t)))
         \<and> financeEngine (snd (drainQueue ?t)) = financeEngine ?t
         \<and> localStorage (snd (drainQueue ?t)) = localStorage ?t
         \<and> syncTimer (snd (drainQueue ?t)) = syncTimer ?t
         \<and> lastSavedDataString (snd (drainQueue ?t)) = lastSavedDataString ?t
         \<and> lastComputationHash (snd (drainQueue ?t)) = lastComputationHash ?t"
      by (rule drain_pending_throw [OF qt ne]) (simp_all add: Inl)
    then show ?thesis unfolding fire by (auto simp add: Inl)
  qed
qed

lemma syncAfterDataChange_fields [simp]:
  "financeEngine (syncAfterDataChange reason s) = financeEngine s"
  "localStorage (syncAfterDataChange reason s) = localStorage s"
  "state (syncAfterDataChange reason s) = state s"
  "isProcessingQueue (syncAfterDataChange reason s) = isProcessingQueue s"
  by (simp_all add: syncAfterDataChange_def)

text \<open>
  Claim C9.  \<open>updateMenu\<close> of the state manager, called with an id that no menu of the
  dataset has and with a payload that passes the menu validation, does not fail.  The
  engine's dataset gets one more menu, with the given id and the payload's name, price,
  channel mix and bom (a payload that passes the validation has all four, so no default
  applies to it), and the store is written.  With no sync running, the sync timer is
  armed, and what the call queues is the loading flag, the new dataset and the loading
  flag again: no error update.  At the drain of the queue (in a manager that is not
  draining it already, whose published scenarios are an object), when the updates that were
  pending apply without a throw, the published dataset is the new one, the error field is
  empty and loading is cleared; the engine, the store and the armed sync timer are as the
  call left them.

  The last part is the engine part of the method on a payload \<open>u\<close> that is neither \<open>null\<close>
  nor \<open>undefined\<close>, validated or not: it throws nothing, saves, and appends the menu in
  which each field that the payload lacks takes its default: the generated name for a
  falsy name, price 0 for a price that is not a number, the channel mix 0.7/0.2/0.1 for a
  falsy channel mix, and the empty bom for a falsy bom.
\<close>

theorem update_of_missing_menu_inserts:
  assumes v: "validateMenuItem (host s) updates = Inr r" "isValid r"
    and ms: "propOf ''menus'' (data (financeEngine s)) = JArr xs"
    and no: "someById (JStr mId) xs = Inr False"
  shows "propOf ''menus'' (data (financeEngine (sm_updateMenu mId updates s)))
           = JArr (xs @ [JObj [(''id'', JStr mId), (''name'', propOf ''name'' updates),
                               (''price'', propOf ''price'' updates),
                               (''channelMix'', propOf ''channelMix'' updates),
                               (''bom'', propOf ''bom'' updates)]])
         \<and> scenarios (financeEngine (sm_updateMenu mId updates s)) = scenarios (financeEngine s)
         \<and> localStorage (sm_updateMenu mId updates s)
             = save (financeEngine (sm_updateMenu mId updates s))
                 (save (financeEngine s) (localStorage s))
         \<and> (\<not> isSyncInProgress s \<longrightarrow>
              syncTimer (sm_updateMenu mId updates s) = Some ''updateMenu''
              \<and> updateQueue (sm_updateMenu mId updates s)
                  = updateQueue s
                    @ [(LOADING_UPDATE True, False),
                       (DATA_UPDATE (data (financeEngine (sm_updateMenu mId updates s)))
                          (appScenarios (state s)), True),
                       (LOADING_UPDATE False, False)]
              \<and> (\<not> isProcessingQueue s \<and> isObjectType (appScenarios (state s)) \<longrightarrow>
                   (case queueTimerFires (sm_updateMenu mId updates s) of
                      (err, s') \<Rightarrow>
                        financeEngine s' = financeEngine (sm_updateMenu mId updates s)
                        \<and> localStorage s' = localStorage (sm_updateMenu mId updates s)
                        \<and> syncTimer s' = Some ''updateMenu''
                        \<and> (case applyAll (map fst (updateQueue s)) (state s) of
                              Inr a \<Rightarrow>
                                err = None \<and> updateQueue s' = []
                                \<and> state s' =
                                    a\<lparr>appData := data (financeEngine (sm_updateMenu mId updates s)),
                                      appScenarios := appScenarios (state s),
                                      isLoading := False, appError := None\<rparr>
                            | Inl e \<Rightarrow> err = Some e))))
         \<and> (\<not> nullish u \<longrightarrow>
              (case updateOrAddMenu mId u (financeEngine s) (localStorage s) of
                 (err, e', st') \<Rightarrow>
                   err = None \<and> st' = save e' (save (financeEngine s) (localStorage s))
                   \<and> propOf ''menus'' (data e')
                       = JArr (xs @
                           [JObj [(''id'', JStr mId),
                                  (''name'', if truthy (propOf ''name'' u) then propOf ''name'' u
                                             else JStr (newMenuPrefix @ mId)),
                                  (''price'', if isNumber (propOf ''price'' u)
                                              then propOf ''price'' u else JNum 0),
                                  (''channelMix'',
                                     if truthy (propOf ''channelMix'' u)
                                     then propOf ''channelMix'' u
                                     else JObj [(''dineIn'', JNum 0.7), (''takeaway'', JNum 0.2),
                                                (''delivery'', JNum 0.1)]),
                                  (''bom'', if truthy (propOf ''bom'' u) then propOf ''bom'' u
                                            else JArr [])]])))"
proof -
  have nn: "\<not> nullish updates" using v(1) by (rule validateMenuItem_not_nullish)
  from updateOrAddMenu_missing [OF ms no nn, of "localStorage s"]
  obtain e' where op: "updateOrAddMenu mId updates (financeEngine s) (localStorage s)
        = (None, e', save e' (save (financeEngine s) (localStorage s)))"
    and ms': "propOf ''menus'' (data e') = JArr (xs @ [menuToAdd mId updates])"
    and sc': "scenarios e' = scenarios (financeEngine s)"
    by blast
  have val: "validateOne (validateMenuItem (host s)) updates = Inr (True, errors r)"
    using v by (simp add: validateOne_def)
  let ?s' = "sm_updateMenu mId updates s"
  let ?x = "updateState (DATA_UPDATE (data e') (appScenarios (state s))) True
              ((updateState (LOADING_UPDATE True) False s)
                 \<lparr>financeEngine := e',
                   localStorage := save e' (save (financeEngine s) (localStorage s))\<rparr>)"
  have eq0: "?s' = updateState (LOADING_UPDATE False) False (syncAfterDataChange ''updateMenu'' ?x)"
    unfolding sm_updateMenu_def val
    by (rule mutation_accepted [of "updateOrAddMenu mId updates" s e' _ "errors r", OF op])
  have fe: "financeEngine ?s' = e'" unfolding eq0 by simp
  have a: "propOf ''menus'' (data (financeEngine ?s'))
           = JArr (xs @ [JObj [(''id'', JStr mId), (''name'', propOf ''name'' updates),
                               (''price'', propOf ''price'' updates),
                               (''channelMix'', propOf ''channelMix'' updates),
                               (''bom'', propOf ''bom'' updates)]])"
    unfolding fe ms' menuToAdd_valid [OF v, of mId] ..
  have b: "scenarios (financeEngine ?s') = scenarios (financeEngine s)"
    unfolding fe by (rule sc')
  have c: "localStorage ?s' = save (financeEngine ?s') (save (financeEngine s) (localStorage s))"
    unfolding fe unfolding eq0 by simp
  have d: "\<not> isSyncInProgress s \<longrightarrow>
              syncTimer ?s' = Some ''updateMenu''
              \<and> updateQueue ?s'
                  = updateQueue s
                    @ [(LOADING_UPDATE True, False),
                       (DATA_UPDATE (data (financeEngine ?s')) (appScenarios (state s)), True),
                       (LOADING_UPDATE False, False)]
              \<and> (\<not> isProcessingQueue s \<and> isObjectType (appScenarios (state s)) \<longrightarrow>
                   (case queueTimerFires ?s' of
                      (err, s') \<Rightarrow>
                        financeEngine s' = financeEngine ?s'
                        \<and> localStorage s' = localStorage ?s'
                        \<and> syncTimer s' = Some ''updateMenu''
                        \<and> (case applyAll (map fst (updateQueue s)) (state s) of
                              Inr a \<Rightarrow>
                                err = None \<and> updateQueue s' = []
                                \<and> state s' =
                                    a\<lparr>appData := data (financeEngine ?s'),
                                      appScenarios := appScenarios (state s),
                                      isLoading := False, appError := None\<rparr>
                            | Inl e \<Rightarrow> err = Some e)))"
  proof (intro impI conjI)
    assume idle: "\<not> isSyncInProgress s"
    have eq: "?s' = updateState (LOADING_UPDATE False) False (?x\<lparr>syncTimer := Some ''updateMenu''\<rparr>)"
      unfolding eq0 using idle by (simp add: syncAfterDataChange_def)
    show t: "syncTimer ?s' = Some ''updateMenu''" unfolding eq by simp
    show q: "updateQueue ?s'
                  = updateQueue s
                    @ [(LOADING_UPDATE True, False),
                       (DATA_UPDATE (data (financeEngine ?s')) (appScenarios (state s)), True),
                       (LOADING_UPDATE False, False)]"
      unfolding fe unfolding eq by simp
    assume h: "\<not> isProcessingQueue s \<and> isObjectType (appScenarios (state s))"
    have p': "\<not> isProcessingQueue ?s'" unfolding eq using h by simp
    have st: "state ?s' = state s" unfolding eq by simp
    from publish_drained [of s "appScenarios (state s)" ?s' "data (financeEngine ?s')", OF _ _ q p'] h
    show "case queueTimerFires ?s' of
            (err, s') \<Rightarrow>
              financeEngine s' = financeEngine ?s'
              \<and> localStorage s' = localStorage ?s'
              \<and> syncTimer s' = Some ''updateMenu''
              \<and> (case applyAll (map fst (updateQueue s)) (state s) of
                    Inr a \<Rightarrow>
                      err = None \<and> updateQueue s' = []
                      \<and> state s' =
                          a\<lparr>appData := data (financeEngine ?s'),
                            appScenarios := appScenarios (state s),
                            isLoading := False, appError := None\<rparr>
                  | Inl e \<Rightarrow> err = Some e)"
      unfolding st t by simp
  qed
  have e: "\<not> nullish u \<longrightarrow>
              (case updateOrAddMenu mId u (financeEngine s) (localStorage s) of
                 (err, e', st') \<Rightarrow>
                   err = None \<and> st' = save e' (save (financeEngine s) (localStorage s))
                   \<and> propOf ''menus'' (data e')
                       = JArr (xs @
                           [JObj [(''id'', JStr mId),
                                  (''name'', if truthy (propOf ''name'' u) then propOf ''name'' u
                                             else JStr (newMenuPrefix @ mId)),
                                  (''price'', if isNumber (propOf ''price'' u)
                                              then propOf ''price'' u else JNum 0),
                                  (''channelMix'',
                                     if truthy (propOf ''channelMix'' u)
                                     then propOf ''channelMix'' u
                                     else JObj [(''dineIn'', JNum 0.7), (''takeaway'', JNum 0.2),
                                                (''delivery'', JNum 0.1)]),
                                  (''bom'', if truthy (propOf ''bom'' u) then propOf ''bom'' u
                                            else JArr [])]]))"
  proof
    assume nu: "\<not> nullish u"
    from updateOrAddMenu_missing [OF ms no nu, of "localStorage s"]
    obtain e2 where op2: "updateOrAddMenu mId u (financeEngine s) (localStorage s)
        = (None, e2, save e2 (save (financeEngine s) (localStorage s)))"
      and ms2: "propOf ''menus'' (data e2) = JArr (xs @ [menuToAdd mId u])"
      by blast
    show "case updateOrAddMenu mId u (financeEngine s) (localStorage s) of
                 (err, e', st') \<Rightarrow>
                   err = None \<and> st' = save e' (save (financeEngine s) (localStorage s))
                   \<and> propOf ''menus'' (data e')
                       = JArr (xs @
                           [JObj [(''id'', JStr mId),
                                  (''name'', if truthy (propOf ''name'' u) then propOf ''name'' u
                                             else JStr (newMenuPrefix @ mId)),
                                  (''price'', if isNumber (propOf ''price'' u)
                                              then propOf ''price'' u else JNum 0),
                                  (''channelMix'',
                                     if truthy (propOf ''channelMix'' u)
                                     then propOf ''channelMix'' u
                                     else JObj [(''dineIn'', JNum 0.7), (''takeaway'', JNum 0.2),
                                                (''delivery'', JNum 0.1)]),
                                  (''bom'', if truthy (propOf ''bom'' u) then propOf ''bom'' u
                                            else JArr [])]])"
      unfolding op2 using ms2 by (simp add: menuToAdd_def)
  qed
  from a b c d e show ?thesis by blast
qed


lemma newMenu_valid:
  "validateMenuItem sampleHost newMenu = Inr \<lparr>isValid = True, errors = [], warnings = []\<rparr>"
  by (simp add: newMenu_def validator_defs js_of_MenuItem_def js_of_ChannelMix_def menuWithId_def)

text \<open>
  A valid menu under an id that is missing, at the initial manager; and the engine part of
  the method on the empty payload and on a payload with a price and an empty name, where
  the defaults fill what is missing.
\<close>

theorem update_of_missing_menu_inserts_witness:
  "propOf ''menus'' (data (financeEngine (sm_updateMenu ''b'' newMenu initialManager)))
     = JArr [js_of_MenuItem (menuWithId ''a'' 50),
             JObj [(''id'', JStr ''b''), (''name'', JStr ''menu''), (''price'', JNum 60),
                   (''channelMix'', JObj [(''dineIn'', JNum 0.7), (''takeaway'', JNum 0.2),
                                          (''delivery'', JNum 0.1)]),
                   (''bom'', JArr [])]]
   \<and> syncTimer (sm_updateMenu ''b'' newMenu initialManager) = Some ''updateMenu''
   \<and> (case queueTimerFires (sm_updateMenu ''b'' newMenu initialManager) of
        (err, s') \<Rightarrow>
          err = None \<and> appError (state s') = None \<and> \<not> isLoading (state s')
          \<and> updateQueue s' = []
          \<and> propOf ''menus'' (appData (state s'))
              = JArr [js_of_MenuItem (menuWithId ''a'' 50),
                      JObj [(''id'', JStr ''b''), (''name'', JStr ''menu''), (''price'', JNum 60),
                            (''channelMix'', JObj [(''dineIn'', JNum 0.7), (''takeaway'', JNum 0.2),
                                                   (''delivery'', JNum 0.1)]),
                            (''bom'', JArr [])]])
   \<and> (case updateOrAddMenu ''b'' (JObj []) sampleEngine emptyStorage of
        (err, e', st') \<Rightarrow>
          err = None
          \<and> propOf ''menus'' (data e')
              = JArr [js_of_MenuItem (menuWithId ''a'' 50),
                      JObj [(''id'', JStr ''b''), (''name'', JStr (newMenuPrefix @ ''b'')),
                            (''price'', JNum 0),
                            (''channelMix'', JObj [(''dineIn'', JNum 0.7), (''takeaway'', JNum 0.2),
                                                   (''delivery'', JNum 0.1)]),
                            (''bom'', JArr [])]])
   \<and> (case updateOrAddMenu ''b'' (JObj [(''price'', JNum 45), (''name'', JStr [])])
              sampleEngine emptyStorage of
        (err, e', st') \<Rightarrow>
          err = None
          \<and> propOf ''menus'' (data e')
              = JArr [js_of_MenuItem (menuWithId ''a'' 50),
                      JObj [(''id'', JStr ''b''), (''name'', JStr (newMenuPrefix @ ''b'')),
                            (''price'', JNum 45),
                            (''channelMix'', JObj [(''dineIn'', JNum 0.7), (''takeaway'', JNum 0.2),
                                                   (''delivery'', JNum 0.1)]),
                            (''bom'', JArr [])]])"
proof -
  have ms: "propOf ''menus'' (data (financeEngine initialManager))
              = JArr [js_of_MenuItem (menuWithId ''a'' 50)]"
    by (simp add: initialManager_def sampleEngine_def sampleData_def)
  have no: "someById (JStr ''b'') [js_of_MenuItem (menuWithId ''a'' 50)] = Inr False"
    by (simp add: js_of_MenuItem_def menuWithId_def)
  have f: "\<not> isSyncInProgress initialManager" "\<not> isProcessingQueue initialManager"
    "isObjectType (appScenarios (state initialManager))"
    "applyAll (map fst (updateQueue initialManager)) (state initialManager)
       = Inr (state initialManager)"
    "financeEngine initialManager = sampleEngine" "localStorage initialManager = emptyStorage"
    by (simp_all add: initialManager_def)
  have h: "validateMenuItem (host initialManager) newMenu
             = Inr \<lparr>isValid = True, errors = [], warnings = []\<rparr>"
    using newMenu_valid by (simp add: initialManager_def)
  have v: "isValid \<lparr>isValid = True, errors = [], warnings = []\<rparr>" by simp
  have n: "propOf ''name'' newMenu = JStr ''menu''" "propOf ''price'' newMenu = JNum 60"
    "propOf ''channelMix'' newMenu
       = JObj [(''dineIn'', JNum 0.7), (''takeaway'', JNum 0.2), (''delivery'', JNum 0.1)]"
    "propOf ''bom'' newMenu = JArr []"
    by (simp_all add: newMenu_def js_of_MenuItem_def js_of_ChannelMix_def menuWithId_def)
  note t1 = update_of_missing_menu_inserts [OF h v ms no, where u = "JObj []"]
  note t2 = update_of_missing_menu_inserts
      [OF h v ms no, where u = "JObj [(''price'', JNum 45), (''name'', JStr [])]"]
  have 1: "propOf ''menus'' (data (financeEngine (sm_updateMenu ''b'' newMenu initialManager)))
     = JArr [js_of_MenuItem (menuWithId ''a'' 50),
             JObj [(''id'', JStr ''b''), (''name'', JStr ''menu''), (''price'', JNum 60),
                   (''channelMix'', JObj [(''dineIn'', JNum 0.7), (''takeaway'', JNum 0.2),
                                          (''delivery'', JNum 0.1)]),
                   (''bom'', JArr [])]]"
    using t1 [THEN conjunct1] by (simp add: n)
  note m = t1 [THEN conjunct2, THEN conjunct2, THEN conjunct2, THEN conjunct1, THEN mp, OF f(1)]
  have 2: "syncTimer (sm_updateMenu ''b'' newMenu initialManager) = Some ''updateMenu''"
    by (rule m [THEN conjunct1])
  have d: "case queueTimerFires (sm_updateMenu ''b'' newMenu initialManager) of
             (err, s') \<Rightarrow>
               financeEngine s' = financeEngine (sm_updateMenu ''b'' newMenu initialManager)
               \<and> localStorage s' = localStorage (sm_updateMenu ''b'' newMenu initialManager)
               \<and> syncTimer s' = Some ''updateMenu''
               \<and> (case applyAll (map fst (updateQueue initialManager)) (state initialManager) of
                     Inr a \<Rightarrow>
                       err = None \<and> updateQueue s' = []
                       \<and> state s' =
                           a\<lparr>appData := data (financeEngine
                                             (sm_updateMenu ''b'' newMenu initialManager)),
                             appScenarios := appScenarios (state initialManager),
                             isLoading := False, appError := None\<rparr>
                   | Inl e \<Rightarrow> err = Some e)"
    by (rule m [THEN conjunct2, THEN conjunct2, THEN mp, OF conjI, OF f(2) f(3)])
  have 3: "case queueTimerFires (sm_updateMenu ''b'' newMenu initialManager) of
        (err, s') \<Rightarrow>
          err = None \<and> appError (state s') = None \<and> \<not> isLoading (state s')
          \<and> updateQueue s' = []
          \<and> propOf ''menus'' (appData (state s'))
              = JArr [js_of_MenuItem (menuWithId ''a'' 50),
                      JObj [(''id'', JStr ''b''), (''name'', JStr ''menu''), (''price'', JNum 60),
                            (''channelMix'', JObj [(''dineIn'', JNum 0.7), (''takeaway'', JNum 0.2),
                                                   (''delivery'', JNum 0.1)]),
                            (''bom'', JArr [])]]"
    using d 1 by (simp add: f(4) split: prod.splits)
  have 4: "case updateOrAddMenu ''b'' (JObj []) sampleEngine emptyStorage of
        (err, e', st') \<Rightarrow>
          err = None
          \<and> propOf ''menus'' (data e')
              = JArr [js_of_MenuItem (menuWithId ''a'' 50),
                      JObj [(''id'', JStr ''b''), (''name'', JStr (newMenuPrefix @ ''b'')),
                            (''price'', JNum 0),
                            (''channelMix'', JObj [(''dineIn'', JNum 0.7), (''takeaway'', JNum 0.2),
                                                   (''delivery'', JNum 0.1)]),
                            (''bom'', JArr [])]]"
    using t1 [THEN conjunct2, THEN conjunct2, THEN conjunct2, THEN conjunct2]
    by (simp add: f(5,6) nullish_def split: prod.splits)
  have 5: "case updateOrAddMenu ''b'' (JObj [(''price'', JNum 45), (''name'', JStr [])])
              sampleEngine emptyStorage of
        (err, e', st') \<Rightarrow>
          err = None
          \<and> propOf ''menus'' (data e')
              = JArr [js_of_MenuItem (menuWithId ''a'' 50),
                      JObj [(''id'', JStr ''b''), (''name'', JStr (newMenuPrefix @ ''b'')),
                            (''price'', JNum 45),
                            (''channelMix'', JObj [(''dineIn'', JNum 0.7), (''takeaway'', JNum 0.2),
                                                   (''delivery'', JNum 0.1)]),
                            (''bom'', JArr [])]]"
    using t2 [THEN conjunct2, THEN conjunct2, THEN conjunct2, THEN conjunct2]
    by (simp add: f(5,6) nullish_def split: prod.splits)
  from 1 2 3 4 5 show ?thesis by blast
qed

end
